theory Spec2Isabelle
  imports Complex_Main "HOL-Library.Word"
begin

unbundle bit_operations_syntax

chapter \<open>The pathspider measurement engine: a shallow embedding\<close>

section \<open>Python exceptions\<close>

text \<open>
  The exception classes that the modelled functions can raise. A function that can raise
  returns \<open>py_error + 'a\<close>, \<open>Inl\<close> being the exception that escapes it.
  \<open>TimeoutException\<close> is the class declared in \<^verbatim>\<open>pathspider/client/resolver.py\<close>.
\<close>

datatype py_error =
    IndexError | TypeError | KeyError | OSError | TimeoutError | OverflowError
  | UnboundLocalError | AttributeError | StopIteration | TimeoutException

section \<open>The TCP option parser (\<^verbatim>\<open>_tfocookie\<close>, tfospider.py lines 39--84)\<close>

text \<open>
  A TCP segment as python-libtrace hands it to the handlers: only the attributes that the
  handlers read. \<open>data\<close> is the whole segment (header and payload) as bytes, \<open>doff\<close>
  the header length in 32-bit words.
\<close>

record tcp =
  src_port :: int
  seq_nbr :: int
  ack_nbr :: int
  doff :: nat
  fin_flag :: bool
  data :: "8 word list"

text \<open>
  The local variable \<^verbatim>\<open>options\<close> starts as a \<^verbatim>\<open>bytes\<close> slice; line 74
  (\<^verbatim>\<open>options = options[cp+1]\<close>) rebinds it to an \<^verbatim>\<open>int\<close>.
\<close>

datatype options = Bytes "8 word list" | IntOpt nat

text \<open>
  What \<^verbatim>\<open>_tfocookie\<close> returns: \<^verbatim>\<open>None\<close>, \<^verbatim>\<open>False\<close> or a pair
  \<^verbatim>\<open>(0, kind)\<close>. Only the pair is truthy.
\<close>

datatype cookie = RNone | RFalse | RTuple nat nat

fun cookie_bool :: "cookie \<Rightarrow> bool" where
  "cookie_bool RNone = False"
| "cookie_bool RFalse = False"
| "cookie_bool (RTuple a b) = True"

text \<open>
  One pass through the body of \<^verbatim>\<open>while True\<close>: it returns (a value or an exception),
  or it reaches a \<^verbatim>\<open>continue\<close> (or the end of the body) with new values of
  \<^verbatim>\<open>options\<close> and \<^verbatim>\<open>cp\<close>.
\<close>

datatype step = Return "py_error + cookie" | Continue options nat

text \<open>\<^verbatim>\<open>options[i]\<close> on bytes, \<open>i\<close> not negative: IndexError out of range.\<close>

definition with_item :: "8 word list \<Rightarrow> nat \<Rightarrow> (8 word \<Rightarrow> step) \<Rightarrow> step" where
  "with_item bs i k = (if i < length bs then k (bs ! i) else Return (Inl IndexError))"

text \<open>
  Lines 70--83: the test \<^verbatim>\<open>if options[0] == 254\<close> with its \<^verbatim>\<open>else\<close>. It is reached
  for every kind other than 0, 1 and 34, and for kind 253 when the magic does not match.
  When the first byte of the options is 254 and the magic does not match, no branch
  returns or continues: control falls off the end of the loop body with \<^verbatim>\<open>options\<close>
  and \<^verbatim>\<open>cp\<close> unchanged.
\<close>

definition tfocookie_tail :: "8 word list \<Rightarrow> nat \<Rightarrow> step" where
  "tfocookie_tail bs cp =
     with_item bs 0 (\<lambda>k0.
       if k0 = 254 then
         with_item bs (cp + 2) (\<lambda>a. with_item bs (cp + 3) (\<lambda>b.
           if (a, b) = (249, 137) then
             with_item bs (cp + 1) (\<lambda>l.
               if l \<le> 4 then Continue (IntOpt (unat l)) cp
               else Return (Inr (RTuple 0 254)))
           else Continue (Bytes bs) cp))
       else
         with_item bs (cp + 1) (\<lambda>l.
           if unat l \<le> length bs then Return (Inr RFalse)
           else Continue (Bytes bs) (cp + unat l)))"

text \<open>Lines 48--83. On an \<^verbatim>\<open>int\<close>, \<^verbatim>\<open>not options\<close> holds for 0 and
  \<^verbatim>\<open>options[cp]\<close> raises TypeError otherwise.\<close>

definition tfocookie_step :: "options \<Rightarrow> nat \<Rightarrow> step" where
  "tfocookie_step opts cp =
     (case opts of
        IntOpt n \<Rightarrow> if n = 0 then Return (Inr RNone) else Return (Inl TypeError)
      | Bytes bs \<Rightarrow>
          if bs = [] then Return (Inr RNone)
          else with_item bs cp (\<lambda>k.
            if k = 0 then Return (Inr RNone)
            else if k = 1 then Continue (Bytes bs) (cp + 1)
            else if k = 34 then
              with_item bs (cp + 1) (\<lambda>l.
                if l = 2 then Continue (Bytes bs) (cp + 2)
                else Return (Inr (RTuple 0 34)))
            else if k = 253 then
              with_item bs (cp + 2) (\<lambda>a. with_item bs (cp + 3) (\<lambda>b.
                if (a, b) = (249, 137) then
                  with_item bs (cp + 1) (\<lambda>l.
                    if l \<le> 4 then Continue (Bytes bs) (cp + unat l)
                    else Return (Inr (RTuple 0 253)))
                else tfocookie_tail bs cp))
            else tfocookie_tail bs cp))"

text \<open>The loop itself. It may run forever, which is the value \<open>None\<close>.\<close>

partial_function (option) tfocookie_loop :: "options \<Rightarrow> nat \<Rightarrow> (py_error + cookie) option" where
  "tfocookie_loop opts cp =
     (case tfocookie_step opts cp of
        Return r \<Rightarrow> Some r
      | Continue opts' cp' \<Rightarrow> tfocookie_loop opts' cp')"

declare tfocookie_loop.simps [code]

text \<open>Line 44: \<^verbatim>\<open>options = tcp.data[20:tcp.doff*4]\<close>, a slice, which never raises.\<close>

definition tfocookie :: "'a tcp_scheme \<Rightarrow> (py_error + cookie) option" where
  "tfocookie t = tfocookie_loop (Bytes (drop 20 (take (doff t * 4) (data t)))) 0"

text \<open>
  A segment with the given options and payload, for concrete runs. The 20 bytes of the
  fixed header are never read by the handlers and are left zero.
\<close>

definition segment :: "int \<Rightarrow> int \<Rightarrow> int \<Rightarrow> 8 word list \<Rightarrow> 8 word list \<Rightarrow> tcp" where
  "segment sport seqno ackno opts payload =
     \<lparr>src_port = sport, seq_nbr = seqno, ack_nbr = ackno,
      doff = 5 + length opts div 4, fin_flag = False,
      data = replicate 20 0 @ opts @ payload\<rparr>"

section \<open>The Fast-Open handlers (tfospider.py lines 30--37 and 86--111)\<close>

text \<open>
  The flow context \<^verbatim>\<open>rec\<close> is a dictionary; the handlers read and write four of its
  keys. \<^verbatim>\<open>rec['sp']\<close> is written by \<^verbatim>\<open>basic_flow\<close> of \<^verbatim>\<open>pathspider.observer\<close>
  (not part of these sources) before \<^verbatim>\<open>tfosetup\<close> runs; the other three by
  \<^verbatim>\<open>tfosetup\<close>. The remaining keys are the record's extension.
\<close>

record flowrec =
  rec_sp :: int
  rec_tfo_seq :: int
  rec_tfo_len :: int
  rec_tfoworking :: int

definition tfosetup :: "'r flowrec_scheme \<Rightarrow> 'r flowrec_scheme \<times> bool" where
  "tfosetup r = (r\<lparr>rec_tfo_seq := - 1000, rec_tfo_len := - 1000, rec_tfoworking := 0\<rparr>, True)"

definition tcpcompleted :: "'r flowrec_scheme \<Rightarrow> 'a tcp_scheme \<Rightarrow> bool \<Rightarrow> bool" where
  "tcpcompleted r t rev' = (\<not> fin_flag t)"

text \<open>
  \<^verbatim>\<open>tfoworking\<close> returns the updated flow context and the handler's boolean. The
  parser is called before any test, so its exception or its non-termination is the
  handler's. Python's \<^verbatim>\<open>&\<close> on booleans evaluates both operands; none of them raises.
\<close>

definition tfoworking ::
  "'r flowrec_scheme \<Rightarrow> 'a tcp_scheme \<Rightarrow> bool \<Rightarrow> (py_error + 'r flowrec_scheme \<times> bool) option" where
  "tfoworking r t rev' =
     (let outgoing = (rec_sp r = src_port t);
          data_len = int (length (data t)) - int (doff t) * 4
      in case tfocookie t of
           None \<Rightarrow> None
         | Some (Inl e) \<Rightarrow> Some (Inl e)
         | Some (Inr c) \<Rightarrow>
             (let has_cookie = cookie_bool c;
                  has_data = (data_len > 0)
              in if rec_tfo_seq r < 0 \<and> \<not> has_cookie then Some (Inr (r, True))
                 else if has_cookie \<and> has_data \<and> outgoing then
                   Some (Inr (r\<lparr>rec_tfo_seq := seq_nbr t, rec_tfo_len := data_len,
                                 rec_tfoworking := 1\<rparr>, True))
                 else if \<not> outgoing \<and> rec_tfo_seq r > 0
                         \<and> ack_nbr t = rec_tfo_seq r + rec_tfo_len r + 1 then
                   Some (Inr (r\<lparr>rec_tfoworking := 2\<rparr>, False))
                 else if outgoing \<and> has_data \<and> seq_nbr t = rec_tfo_seq r + 1 then
                   Some (Inr (r\<lparr>rec_tfo_seq := - 500, rec_tfo_len := - 500\<rparr>, True))
                 else Some (Inr (r, True))))"

text \<open>A fresh flow context with local port \<open>p\<close>, as the new-flow chain leaves it.\<close>

definition new_flow :: "int \<Rightarrow> flowrec" where
  "new_flow p = fst (tfosetup \<lparr>rec_sp = p, rec_tfo_seq = 0, rec_tfo_len = 0, rec_tfoworking = 0\<rparr>)"

section \<open>Python values\<close>

text \<open>
  The values that the dictionaries and named tuples of the plugins hold: \<^verbatim>\<open>None\<close>,
  booleans, integers and strings.
\<close>

datatype pyval = PNone | PBool bool | PInt int | PStr string

text \<open>\<^verbatim>\<open>d[k]\<close> on a dictionary: KeyError when the key is missing.\<close>

definition lookup :: "(string \<rightharpoonup> pyval) \<Rightarrow> string \<Rightarrow> py_error + pyval" where
  "lookup d k = (case d k of None \<Rightarrow> Inl KeyError | Some v \<Rightarrow> Inr v)"

text \<open>Sequencing: the first exception ends the evaluation.\<close>

definition py_bind :: "py_error + 'a \<Rightarrow> ('a \<Rightarrow> py_error + 'b) \<Rightarrow> py_error + 'b" where
  "py_bind m f = (case m of Inl e \<Rightarrow> Inl e | Inr v \<Rightarrow> f v)"

text \<open>
  The integer an operand of \<^verbatim>\<open>|\<close>, \<^verbatim>\<open>&\<close> or \<^verbatim>\<open><<\<close> stands for: \<^verbatim>\<open>bool\<close> is a
  subclass of \<^verbatim>\<open>int\<close>; strings and \<^verbatim>\<open>None\<close> raise TypeError.
\<close>

fun as_int :: "pyval \<Rightarrow> int option" where
  "as_int (PInt i) = Some i"
| "as_int (PBool b) = Some (if b then 1 else 0)"
| "as_int PNone = None"
| "as_int (PStr s) = None"

definition py_int_op :: "(int \<Rightarrow> int \<Rightarrow> int) \<Rightarrow> pyval \<Rightarrow> int \<Rightarrow> py_error + int" where
  "py_int_op f v c = (case as_int v of None \<Rightarrow> Inl TypeError | Some i \<Rightarrow> Inr (f i c))"

text \<open>\<^verbatim>\<open>a == b\<close>: numbers compare by value (\<^verbatim>\<open>True == 1\<close>), everything else by kind.\<close>

fun py_eq :: "pyval \<Rightarrow> pyval \<Rightarrow> bool" where
  "py_eq (PStr s) (PStr t) = (s = t)"
| "py_eq PNone PNone = True"
| "py_eq a b = (case (as_int a, as_int b) of (Some i, Some j) \<Rightarrow> i = j | _ \<Rightarrow> False)"

section \<open>The correlator's merge (tfospider.py lines 234--246)\<close>

text \<open>
  \<^verbatim>\<open>SpiderRecord\<close>, the Active Record of the Fast-Open plugin (lines 18--20), with its
  seven fields in order.
\<close>

record spider_record =
  sr_ip :: pyval
  sr_rport :: pyval
  sr_port :: pyval
  sr_host :: pyval
  sr_tfostate :: pyval
  sr_connstate :: pyval
  sr_rank :: pyval

text \<open>
  Modelled from the spec: \<^verbatim>\<open>NO_FLOW\<close> is imported from \<^verbatim>\<open>pathspider.base\<close>, which is
  not part of these sources. The specification calls it the Unobserved placeholder, "a
  sentinel standing in for `no matching Flow Record was captured', distinct from an
  all-zero Flow Record": the first argument of a \<^verbatim>\<open>merge\<close> is either that sentinel or
  a flow (a dictionary for the Fast-Open plugin, a \<^verbatim>\<open>FlowRecord\<close> for EcnSpider2);
  \<^verbatim>\<open>flow == NO_FLOW\<close> holds for the sentinel only, and the sentinel has none of the
  attributes of a \<^verbatim>\<open>FlowRecord\<close>.
\<close>

datatype 'f flow = NO_FLOW | Flow 'f

text \<open>
  \<^verbatim>\<open>merge\<close> puts one dictionary on \<^verbatim>\<open>self.outqueue\<close>; the queue is passed and
  returned. The debug log line is not modelled.
\<close>

definition merge ::
  "(string \<rightharpoonup> pyval) flow \<Rightarrow> spider_record \<Rightarrow> (string \<rightharpoonup> pyval) list \<Rightarrow> (string \<rightharpoonup> pyval) list" where
  "merge fl res outqueue =
     (let fl' =
        (case fl of
           NO_FLOW \<Rightarrow>
             [''dip'' \<mapsto> sr_ip res, ''sp'' \<mapsto> sr_port res, ''dp'' \<mapsto> sr_rport res,
              ''connstate'' \<mapsto> sr_connstate res, ''tfostate'' \<mapsto> sr_tfostate res,
              ''observed'' \<mapsto> PBool False]
         | Flow d \<Rightarrow>
             d(''connstate'' \<mapsto> sr_connstate res, ''host'' \<mapsto> sr_host res,
               ''rank'' \<mapsto> sr_rank res, ''tfostate'' \<mapsto> sr_tfostate res,
               ''observed'' \<mapsto> PBool True))
      in outqueue @ [fl'])"

section \<open>Flow demultiplexing (\<^verbatim>\<open>EcnSpider2.tupleize_flow\<close>, ecnspider.py lines 136--175)\<close>

definition TCP_RST :: int where
  "TCP_RST = 0x04"

text \<open>The two attributes of \<^verbatim>\<open>self\<close> that the method reads.\<close>

record ecnspider =
  local_ip4 :: pyval
  local_ip6 :: pyval

text \<open>\<^verbatim>\<open>FlowRecord\<close> (lines 59--60): ip, port, octets, fif, fsf, fuf, fir, fsr, fur.\<close>

datatype flow_record =
  FlowRecord (fr_ip: pyval) (fr_port: pyval) (fr_octets: pyval) (fr_fif: pyval) (fr_fsf: int)
    (fr_fuf: int) (fr_fir: pyval) (fr_fsr: int) (fr_fur: int)

text \<open>
  Lines 138--146, the \<^verbatim>\<open>try\<close> block without its handler: \<open>Inr True\<close> when one of the
  three tests returns \<^verbatim>\<open>None\<close>, \<open>Inr False\<close> when control leaves the block at its end,
  \<open>Inl\<close> when a lookup or the \<^verbatim>\<open>|\<close> raises. The third test is
  \<^verbatim>\<open>flow["initialTCPFlags"] | TCP_RST\<close>, a bitwise or.
\<close>

definition short_circuit :: "(string \<rightharpoonup> pyval) \<Rightarrow> py_error + bool" where
  "short_circuit fl =
     py_bind (lookup fl ''protocolIdentifier'') (\<lambda>p.
       if \<not> py_eq p (PInt 6) then Inr True
       else py_bind (lookup fl ''destinationTransportPort'') (\<lambda>d.
         if \<not> py_eq d (PInt 80) then Inr True
         else py_bind (lookup fl ''initialTCPFlags'') (\<lambda>f.
           py_bind (py_int_op (OR) f TCP_RST) (\<lambda>x.
             if x \<noteq> 0 then Inr True else Inr False))))"

text \<open>
  Lines 150--157. Line 153 lacks the opening parenthesis that line 150 has; the condition
  is read as that of line 150 with the IPv6 keys. \<open>Inr None\<close> is the \<^verbatim>\<open>else\<close> branch.
\<close>

definition select_ip :: "'a ecnspider_scheme \<Rightarrow> (string \<rightharpoonup> pyval) \<Rightarrow> py_error + pyval option" where
  "select_ip self fl =
     (if (case fl ''sourceIPv4Address'' of None \<Rightarrow> False | Some a \<Rightarrow> py_eq a (local_ip4 self))
      then py_bind (lookup fl ''destinationIPv4Address'') (\<lambda>ip. Inr (Some ip))
      else if (case fl ''sourceIPv6Address'' of None \<Rightarrow> False | Some a \<Rightarrow> py_eq a (local_ip6 self))
      then py_bind (lookup fl ''destinationIPv6Address'') (\<lambda>ip. Inr (Some ip))
      else Inr None)"

text \<open>
  Lines 161--162 and 166--167, \<^verbatim>\<open>flow[k1] | (flow[k2] & 0xFF00)\<close>: both lookups
  first, then the operators.
\<close>

definition syn_flags :: "(string \<rightharpoonup> pyval) \<Rightarrow> string \<Rightarrow> string \<Rightarrow> py_error + int" where
  "syn_flags fl k1 k2 =
     py_bind (lookup fl k1) (\<lambda>a.
       py_bind (lookup fl k2) (\<lambda>b.
         py_bind (py_int_op (AND) b 0xFF00) (\<lambda>m.
           py_int_op (OR) a m)))"

text \<open>Lines 163--164 and 168--169, \<^verbatim>\<open>flow[k1] | ((flow[k2] & 0xFF) << 8)\<close>.\<close>

definition union_flags :: "(string \<rightharpoonup> pyval) \<Rightarrow> string \<Rightarrow> string \<Rightarrow> py_error + int" where
  "union_flags fl k1 k2 =
     py_bind (lookup fl k1) (\<lambda>a.
       py_bind (lookup fl k2) (\<lambda>b.
         py_bind (py_int_op (AND) b 0xFF) (\<lambda>m.
           py_int_op (OR) a (push_bit 8 m))))"

definition tupleize_flow ::
  "'a ecnspider_scheme \<Rightarrow> (string \<rightharpoonup> pyval) \<Rightarrow> py_error + flow_record option" where
  "tupleize_flow self fl =
     (case short_circuit fl of
        Inl e \<Rightarrow> Inr None
      | Inr True \<Rightarrow> Inr None
      | Inr False \<Rightarrow>
          py_bind (select_ip self fl) (\<lambda>sel.
            case sel of
              None \<Rightarrow> Inr None
            | Some ip \<Rightarrow>
                py_bind (lookup fl ''initialTCPFlags'') (\<lambda>fif.
                py_bind (syn_flags fl ''lastSynTCPFlags'' ''qofTcpCharacteristics'') (\<lambda>fsf.
                py_bind (union_flags fl ''unionTCPFlags'' ''qofTcpCharacteristics'') (\<lambda>fuf.
                py_bind (lookup fl ''reverseInitialTCPFlags'') (\<lambda>fir.
                py_bind (syn_flags fl ''reverseLastSynTCPFlags'' ''reverseQofTcpCharacteristics'') (\<lambda>fsr.
                py_bind (union_flags fl ''reverseUnionTCPFlags'' ''reverseQofTcpCharacteristics'') (\<lambda>fur.
                py_bind (lookup fl ''sourceTransportPort'') (\<lambda>port.
                py_bind (lookup fl ''reverseTransportOctetDeltaCount'') (\<lambda>octets.
                  Inr (Some (FlowRecord ip port octets fif fsf fuf fir fsr fur))))))))))))"

text \<open>
  A flow as QoF exports it (the template of lines 109--134, with the key spellings that
  \<^verbatim>\<open>tupleize_flow\<close> reads): an HTTP connection from the local IPv4 address, with SYN
  as its first flag and no RST anywhere.
\<close>

definition http_flow :: "string \<rightharpoonup> pyval" where
  "http_flow =
     [''protocolIdentifier'' \<mapsto> PInt 6,
      ''sourceTransportPort'' \<mapsto> PInt 40000,
      ''destinationTransportPort'' \<mapsto> PInt 80,
      ''sourceIPv4Address'' \<mapsto> PStr ''192.0.2.1'',
      ''destinationIPv4Address'' \<mapsto> PStr ''203.0.113.10'',
      ''reverseTransportOctetDeltaCount'' \<mapsto> PInt 1500,
      ''initialTCPFlags'' \<mapsto> PInt 0x02,
      ''reverseInitialTCPFlags'' \<mapsto> PInt 0x12,
      ''unionTCPFlags'' \<mapsto> PInt 0x1b,
      ''reverseUnionTCPFlags'' \<mapsto> PInt 0x1b,
      ''lastSynTCPFlags'' \<mapsto> PInt 0x02,
      ''reverseLastSynTCPFlags'' \<mapsto> PInt 0x12,
      ''qofTcpCharacteristics'' \<mapsto> PInt 0,
      ''reverseQofTcpCharacteristics'' \<mapsto> PInt 0]"

section \<open>The merge of EcnSpider2 (\<^verbatim>\<open>EcnSpider2.merge\<close>, ecnspider.py lines 177--181)\<close>

text \<open>
  \<^verbatim>\<open>SpiderRecord\<close> of ecnspider.py (lines 56--57), the Active Record of EcnSpider2:
  ip, host, port, ecnstate, connstate, httpstatus.
\<close>

record ecn_spider_record =
  er_ip :: pyval
  er_host :: pyval
  er_port :: pyval
  er_ecnstate :: pyval
  er_connstate :: pyval
  er_httpstatus :: pyval

text \<open>
  \<^verbatim>\<open>MergedRecord\<close> (lines 62--64): ip, host, ecnstate, connstate, httpstatus, octets,
  fif, fsf, fuf, fir, fsr, fur. It has no field for an observed flag.
\<close>

datatype merged_record =
  MergedRecord (mr_ip: pyval) (mr_host: pyval) (mr_ecnstate: pyval) (mr_connstate: pyval)
    (mr_httpstatus: pyval) (mr_octets: pyval) (mr_fif: pyval) (mr_fsf: int) (mr_fuf: int)
    (mr_fir: pyval) (mr_fsr: int) (mr_fur: int)

text \<open>
  The method builds the \<^verbatim>\<open>MergedRecord\<close> and calls \<^verbatim>\<open>self.result_sink\<close> with it; the
  records handed to the sink are passed and returned. There is no test for a
  placeholder: \<^verbatim>\<open>flow.octets\<close> is read whatever the flow is, and raises AttributeError
  on the sentinel.
\<close>

definition ecn_merge ::
  "flow_record flow \<Rightarrow> ecn_spider_record \<Rightarrow> merged_record list \<Rightarrow> py_error + merged_record list" where
  "ecn_merge fl res sink =
     (case fl of
        NO_FLOW \<Rightarrow> Inl AttributeError
      | Flow f \<Rightarrow>
          Inr (sink @ [MergedRecord (er_ip res) (er_host res) (er_ecnstate res) (er_connstate res)
                         (er_httpstatus res) (fr_octets f) (fr_fif f) (fr_fsf f) (fr_fuf f)
                         (fr_fir f) (fr_fsr f) (fr_fur f)]))"

section \<open>The active connection attempt (\<^verbatim>\<open>TFOSpider.connect\<close>, tfospider.py lines 158--200)\<close>

definition CONN_OK :: int where
  "CONN_OK = 0"

definition CONN_FAILED :: int where
  "CONN_FAILED = 1"

definition CONN_TIMEOUT :: int where
  "CONN_TIMEOUT = 2"

text \<open>
  A job is a row \<^verbatim>\<open>(address, port, host)\<close>; \<^verbatim>\<open>connect\<close> reads \<^verbatim>\<open>job[0]\<close>,
  \<^verbatim>\<open>job[1]\<close> and \<^verbatim>\<open>job[2]\<close>.
\<close>

type_synonym job = "string \<times> int \<times> string"

datatype af = AF_INET | AF_INET6

text \<open>A socket object: the \<open>n\<close>-th one that the call creates.\<close>

datatype sock = Sock nat

text \<open>
  The socket library is outside the program: every call of it either returns or raises,
  and which of the two is given by the environment. \<open>socket_new af n\<close> is the \<open>n\<close>-th
  call of \<^verbatim>\<open>socket.socket(af, socket.SOCK_STREAM)\<close>, \<open>getsockname\<close> is
  \<^verbatim>\<open>sock.getsockname()[1]\<close>, and the address of \<open>sock_connect\<close> and \<open>sendto\<close> is
  \<^verbatim>\<open>(job[0], job[1])\<close>.
\<close>

record sockets =
  socket_new :: "af \<Rightarrow> nat \<Rightarrow> py_error option"
  settimeout :: "sock \<Rightarrow> py_error option"
  sock_connect :: "sock \<Rightarrow> string \<times> int \<Rightarrow> py_error option"
  sendto :: "sock \<Rightarrow> string \<times> int \<Rightarrow> py_error option"
  getsockname :: "sock \<Rightarrow> py_error + int"

text \<open>\<^verbatim>\<open>Connection\<close> (line 17): client, port, state.\<close>

datatype connection = Connection (conn_client: sock) (conn_port: int) (conn_state: int)

text \<open>
  The class hierarchy behind the two \<^verbatim>\<open>except\<close> clauses: \<^verbatim>\<open>TimeoutError\<close> is a
  subclass of \<^verbatim>\<open>OSError\<close>; the other classes of \<open>py_error\<close> are subclasses of neither.
\<close>

definition is_TimeoutError :: "py_error \<Rightarrow> bool" where
  "is_TimeoutError e = (e = TimeoutError)"

definition is_OSError :: "py_error \<Rightarrow> bool" where
  "is_OSError e = (e = OSError \<or> e = TimeoutError)"

text \<open>
  \<^verbatim>\<open>Connection(sock, sock.getsockname()[1], state)\<close>, where the variable \<^verbatim>\<open>sock\<close> may
  still be unbound (\<open>None\<close>).
\<close>

definition make_connection :: "'a sockets_scheme \<Rightarrow> sock option \<Rightarrow> int \<Rightarrow> py_error + connection" where
  "make_connection env sk st =
     (case sk of
        None \<Rightarrow> Inl UnboundLocalError
      | Some s \<Rightarrow> py_bind (getsockname env s) (\<lambda>p. Inr (Connection s p st)))"

text \<open>
  Lines 174--177 and 197--200: the two handlers, for an exception \<open>e\<close> raised in the
  \<^verbatim>\<open>try\<close> block. An exception of another class, or one raised by the handler itself,
  leaves \<^verbatim>\<open>connect\<close>.
\<close>

definition handlers :: "'a sockets_scheme \<Rightarrow> sock option \<Rightarrow> py_error \<Rightarrow> py_error + connection" where
  "handlers env sk e =
     (if is_TimeoutError e then make_connection env sk CONN_TIMEOUT
      else if is_OSError e then make_connection env sk CONN_FAILED
      else Inl e)"

text \<open>A library call that returns nothing, followed by the rest of the block.\<close>

definition py_then :: "py_error option \<Rightarrow> (py_error + 'a) \<Rightarrow> py_error + 'a" where
  "py_then r k = (case r of Some e \<Rightarrow> Inl e | None \<Rightarrow> k)"

text \<open>
  \<^verbatim>\<open>connect\<close> returns a \<^verbatim>\<open>Connection\<close>, or \<^verbatim>\<open>None\<close> when \<^verbatim>\<open>config\<close> is neither 0
  nor 1 (the function body ends without a \<^verbatim>\<open>return\<close>), or raises. For \<^verbatim>\<open>config == 0\<close>
  the socket is created before the \<^verbatim>\<open>try\<close> (line 167). For \<^verbatim>\<open>config == 1\<close> step one
  (lines 184--189) swallows every exception and leaves \<^verbatim>\<open>sock\<close> bound exactly when its
  socket was created; step two creates the second socket inside the \<^verbatim>\<open>try\<close>. The
  request text built from \<^verbatim>\<open>job[2]\<close> is not modelled.
\<close>

definition connect :: "'a sockets_scheme \<Rightarrow> job \<Rightarrow> int \<Rightarrow> py_error + connection option" where
  "connect env job config =
     (let addr = (fst job, fst (snd job));
          af = (if count_list (fst job) (CHR '':'') \<ge> 1 then AF_INET6 else AF_INET)
      in if config = 0 then
           (case socket_new env af 0 of
              Some e \<Rightarrow> Inl e
            | None \<Rightarrow>
                (case py_then (settimeout env (Sock 0))
                        (py_then (sock_connect env (Sock 0) addr)
                           (make_connection env (Some (Sock 0)) CONN_OK)) of
                   Inr c \<Rightarrow> Inr (Some c)
                 | Inl e \<Rightarrow> py_bind (handlers env (Some (Sock 0)) e) (\<lambda>c. Inr (Some c))))
         else if config = 1 then
           (let sk1 = (case socket_new env af 0 of None \<Rightarrow> Some (Sock 0) | Some e \<Rightarrow> None)
            in case socket_new env af 1 of
                 Some e \<Rightarrow> py_bind (handlers env sk1 e) (\<lambda>c. Inr (Some c))
               | None \<Rightarrow>
                   (case py_then (sendto env (Sock 1) addr)
                           (make_connection env (Some (Sock 1)) CONN_OK) of
                      Inr c \<Rightarrow> Inr (Some c)
                    | Inl e \<Rightarrow> py_bind (handlers env (Some (Sock 1)) e) (\<lambda>c. Inr (Some c))))
         else Inr None)"

text \<open>An environment in which every call succeeds and the local port is 40000.\<close>

definition env_ok :: sockets where
  "env_ok = \<lparr>socket_new = (\<lambda>a n. None), settimeout = (\<lambda>s. None),
             sock_connect = (\<lambda>s a. None), sendto = (\<lambda>s a. None),
             getsockname = (\<lambda>s. Inr 40000)\<rparr>"

section \<open>The resolver client (resolver.py)\<close>

text \<open>
  \<^verbatim>\<open>take\<close> (lines 28--36) is a generator over \<^verbatim>\<open>range(0, count)\<close>; the test
  \<^verbatim>\<open>index >= count\<close> never holds inside that range. The result is what the generator
  yields and how its body ends: \<open>None\<close> when the loop is over, \<open>Some StopIteration\<close>
  when \<^verbatim>\<open>next(it)\<close> finds the iterator exhausted and raises inside the body (nothing
  catches it there; since Python 3.7 the consumer of the generator sees it as a
  RuntimeError).
\<close>

fun take_loop :: "nat \<Rightarrow> 'a list \<Rightarrow> 'a list \<times> py_error option" where
  "take_loop 0 it = ([], None)"
| "take_loop (Suc n) [] = ([], Some StopIteration)"
| "take_loop (Suc n) (x # it) = (case take_loop n it of (ys, e) \<Rightarrow> (x # ys, e))"

definition take_py :: "int \<Rightarrow> 'a list \<Rightarrow> 'a list \<times> py_error option" where
  "take_py count iterable = take_loop (nat count) iterable"

text \<open>
  What \<^verbatim>\<open>self.client.result_for(token)\<close> returns: an mplane Receipt, Exception or
  Result (with its rows), or anything else.
\<close>

datatype 'a response = Receipt | MException | MResult "'a list" | Other

fun pending :: "'a response \<Rightarrow> bool" where
  "pending Receipt = True"
| "pending Other = True"
| "pending MException = False"
| "pending (MResult rows) = False"

text \<open>
  The mplane client and the clock are outside the program. The world gives the answer
  to the \<open>k\<close>-th call of \<^verbatim>\<open>result_for\<close>, whether the call to the outside that is the
  \<open>n\<close>-th of the log raises (read for \<^verbatim>\<open>retrieve_capabilities\<close> only; \<^verbatim>\<open>result_for\<close>,
  \<^verbatim>\<open>forget\<close> and \<^verbatim>\<open>print\<close> are taken to return), and the time that the \<open>n\<close>-th call
  of the log takes (for \<^verbatim>\<open>time.sleep\<close>: the time beyond the one asked for).
\<close>

record 'a world =
  result_for :: "nat \<Rightarrow> 'a response"
  retrieve_raises :: "nat \<Rightarrow> bool"
  took :: "nat \<Rightarrow> real"

datatype event = RetrieveCapabilities | Unreachable | ResultFor | Forget | PrintResult | Sleep

text \<open>
  The state: \<^verbatim>\<open>self.last_updated\<close>, the clock that \<^verbatim>\<open>time.time()\<close> reads, and the log
  of the calls to the outside made so far, each with the time at which it started. The
  lock is not modelled.
\<close>

record resolver =
  last_updated :: real
  clock :: real
  events :: "(real \<times> event) list"

text \<open>The times at which \<^verbatim>\<open>result_for\<close> was called.\<close>

definition poll_times :: "resolver \<Rightarrow> real list" where
  "poll_times s = map fst (filter (\<lambda>e. snd e = ResultFor) (events s))"

text \<open>The times at which \<^verbatim>\<open>retrieve_capabilities\<close> was called.\<close>

definition refresh_times :: "resolver \<Rightarrow> real list" where
  "refresh_times s = map fst (filter (\<lambda>e. snd e = RetrieveCapabilities) (events s))"

text \<open>A call to the outside: it is logged, and the clock moves on by the time it takes.\<close>

definition emit :: "('a, 'b) world_scheme \<Rightarrow> event \<Rightarrow> resolver \<Rightarrow> resolver" where
  "emit w e s =
     s\<lparr>events := events s @ [(clock s, e)], clock := clock s + took w (length (events s))\<rparr>"

text \<open>\<^verbatim>\<open>time.sleep(d)\<close>: the clock moves on by \<open>d\<close> and by what the world adds.\<close>

definition sleep :: "('a, 'b) world_scheme \<Rightarrow> real \<Rightarrow> resolver \<Rightarrow> resolver" where
  "sleep w d s = (let s' = emit w Sleep s in s'\<lparr>clock := clock s' + d\<rparr>)"

text \<open>
  Lines 53--60: the refresh of the capabilities, with its bare \<^verbatim>\<open>except\<close>. Line 55
  reads the clock before the call, line 58 after it.
\<close>

definition refresh :: "('a, 'b) world_scheme \<Rightarrow> resolver \<Rightarrow> resolver" where
  "refresh w s =
     (if last_updated s + 5 < clock s then
        (if retrieve_raises w (length (events s))
         then emit w Unreachable (emit w RetrieveCapabilities s)
         else (let s' = emit w RetrieveCapabilities s in s'\<lparr>last_updated := clock s'\<rparr>))
      else s)"

text \<open>
  Lines 50--81. The result is \<open>Inr None\<close> for an mplane Exception, \<open>Inr (Some rows)\<close>
  for a Result, and \<open>Inl TimeoutException\<close> when the loop ends.
\<close>

function fetch_loop ::
  "('a, 'b) world_scheme \<Rightarrow> int \<Rightarrow> int \<Rightarrow> resolver \<Rightarrow> (py_error + 'a list option) \<times> resolver" where
  "fetch_loop w request_timeout time_spent s =
     (if time_spent < request_timeout then
        (let s0 = refresh w s;
             s1 = emit w ResultFor s0
         in case result_for w (length (poll_times s0)) of
              MException \<Rightarrow> (Inr None, emit w Forget (emit w PrintResult s1))
            | Receipt \<Rightarrow> fetch_loop w request_timeout (time_spent + 5) (sleep w 5 s1)
            | MResult rows \<Rightarrow> (Inr (Some rows), emit w Forget s1)
            | Other \<Rightarrow>
                fetch_loop w request_timeout (time_spent + 5) (sleep w 5 (emit w PrintResult s1)))
      else (Inl TimeoutException, s))"
  by pat_completeness auto
termination
  by (relation "measure (\<lambda>(w, request_timeout, time_spent, s). nat (request_timeout - time_spent))")
     auto

declare fetch_loop.simps [simp del]

definition fetch_result ::
  "('a, 'b) world_scheme \<Rightarrow> int \<Rightarrow> resolver \<Rightarrow> (py_error + 'a list option) \<times> resolver" where
  "fetch_result w request_timeout s = fetch_loop w request_timeout 0 s"

chapter \<open>Properties\<close>

section \<open>The option parser\<close>

lemma tfocookie_loop_stuck:
  "tfocookie_loop opts cp = Some y \<Longrightarrow> tfocookie_step opts cp \<noteq> Continue opts cp"
proof (induction rule: tfocookie_loop.raw_induct [rotated, consumes 1])
  case (1 f opts cp y)
  then show ?case
    by (cases "tfocookie_step opts cp") auto
qed

lemma tfocookie_loop_diverges:
  assumes "tfocookie_step opts cp = Continue opts cp"
  shows "tfocookie_loop opts cp = None"
proof (cases "tfocookie_loop opts cp")
  case (Some y)
  from tfocookie_loop_stuck [OF this] assms show ?thesis by simp
qed simp

lemma tfocookie_segment:
  "length opts mod 4 = 0 \<Longrightarrow>
   tfocookie (segment sport seqno ackno opts payload) = tfocookie_loop (Bytes opts) 0"
proof -
  assume "length opts mod 4 = 0"
  then have "(5 + length opts div 4) * 4 = 20 + length opts" by presburger
  then show ?thesis by (simp add: tfocookie_def segment_def)
qed

text \<open>
  An options region of NOP, NOP, End-of-options gives "no cookie".
\<close>

lemma tfocookie_nop_nop_eol:
  "tfocookie_loop (Bytes [1, 1, 0]) 0 = Some (Inr RNone)"
  by code_simp

text \<open>
  Kind 34 whose length byte is inside the region: length 2 continues the scan two bytes
  on, any other length reports the cookie.
\<close>

lemma tfocookie_step_kind34:
  assumes "cp + 1 < length bs" and "bs ! cp = 34"
  shows "tfocookie_step (Bytes bs) cp =
           (if bs ! (cp + 1) = 2 then Continue (Bytes bs) (cp + 2)
            else Return (Inr (RTuple 0 34)))"
  using assms by (auto simp: tfocookie_step_def with_item_def)

text \<open>
  Kind 253 followed by the magic 249, 137 inside the region: a length of at most 4 (no
  cookie) continues the scan after the option, a longer one reports the cookie.
\<close>

lemma tfocookie_step_kind253:
  assumes "cp + 3 < length bs" and "bs ! cp = 253"
    and "bs ! (cp + 2) = 249" and "bs ! (cp + 3) = 137"
  shows "tfocookie_step (Bytes bs) cp =
           (if bs ! (cp + 1) \<le> 4 then Continue (Bytes bs) (cp + unat (bs ! (cp + 1)))
            else Return (Inr (RTuple 0 253)))"
  using assms by (auto simp: tfocookie_step_def with_item_def)

text \<open>
  Claim C1. The parser is to check every index against the options region, so that it
  never indexes past the end and returns "no cookie" on every truncated or malformed
  sequence, and terminates. The code does not: the only test at the loop head is
  \<^verbatim>\<open>if not options\<close>, which never looks at \<^verbatim>\<open>cp\<close>. Four NOPs, a well-formed options
  region, make it index position 4 of a 4-byte buffer (IndexError); an option of kind 8
  that declares 10 bytes in a 4-byte region makes it jump to position 10 (IndexError); and
  kind 254 without the magic makes it loop forever.
\<close>

theorem tfocookie_unchecked_index:
  "tfocookie (segment 50000 1 0 [1, 1, 1, 1] []) = Some (Inl IndexError)
   \<and> tfocookie (segment 50000 1 0 [8, 10, 0, 0] []) = Some (Inl IndexError)
   \<and> tfocookie (segment 50000 1 0 [254, 4, 0, 0] []) = None"
proof -
  have a: "tfocookie_loop (Bytes [1, 1, 1, 1]) 0 = Some (Inl IndexError)"
    by code_simp
  have b: "tfocookie_loop (Bytes [8, 10, 0, 0]) 0 = Some (Inl IndexError)"
    by code_simp
  have "tfocookie_step (Bytes [254, 4, 0, 0]) 0 = Continue (Bytes [254, 4, 0, 0]) 0"
    by code_simp
  then have c: "tfocookie_loop (Bytes [254, 4, 0, 0]) 0 = None"
    by (rule tfocookie_loop_diverges)
  show ?thesis
    using a b c by (simp add: tfocookie_segment)
qed

text \<open>
  Claim C4. Kinds 34 and 253 behave as the claim says; kind 254 does not. Line 70 tests
  \<^verbatim>\<open>options[0]\<close> where lines 55 and 62 test \<^verbatim>\<open>options[cp]\<close>, line 74 assigns
  \<^verbatim>\<open>options = options[cp+1]\<close> where line 66 has \<^verbatim>\<open>cp += options[cp+1]\<close>, and the
  generic rule is the \<^verbatim>\<open>else\<close> of line 70. So a kind-254 option with the magic and a
  4-byte cookie that follows two NOPs is reported as "no cookie" (\<^verbatim>\<open>False\<close>); a
  cookie-less kind-254 option with the magic at the start raises TypeError instead of
  being skipped; and a kind-254 option without the magic at the start never reaches the
  generic rule: the loop does not terminate.
\<close>

theorem tfocookie_kind254:
  "tfocookie (segment 50000 1 0 [1, 1, 254, 8, 249, 137, 1, 2, 3, 4, 0, 0] []) = Some (Inr RFalse)
   \<and> tfocookie (segment 50000 1 0 [254, 4, 249, 137] []) = Some (Inl TypeError)
   \<and> tfocookie (segment 50000 1 0 [254, 6, 1, 2, 3, 4, 0, 0] []) = None
   \<and> tfocookie (segment 50000 1 0 [253, 8, 249, 137, 1, 2, 3, 4] []) = Some (Inr (RTuple 0 253))"
proof -
  have a: "tfocookie_loop (Bytes [1, 1, 254, 8, 249, 137, 1, 2, 3, 4, 0, 0]) 0 = Some (Inr RFalse)"
    by code_simp
  have b: "tfocookie_loop (Bytes [254, 4, 249, 137]) 0 = Some (Inl TypeError)"
    by code_simp
  have "tfocookie_step (Bytes [254, 6, 1, 2, 3, 4, 0, 0]) 0 = Continue (Bytes [254, 6, 1, 2, 3, 4, 0, 0]) 0"
    by code_simp
  then have c: "tfocookie_loop (Bytes [254, 6, 1, 2, 3, 4, 0, 0]) 0 = None"
    by (rule tfocookie_loop_diverges)
  have d: "tfocookie_loop (Bytes [253, 8, 249, 137, 1, 2, 3, 4]) 0 = Some (Inr (RTuple 0 253))"
    by code_simp
  show ?thesis
    using a b c d by (simp add: tfocookie_segment)
qed

text \<open>
  Claim C5. For a kind other than 0, 1, 34, 253 and 254 the parser is to skip the
  declared length and go on scanning. Line 79 has the comparison the other way round:
  when the declared length is at most the length of the whole options region the parser
  returns \<^verbatim>\<open>False\<close> at once, and only a length beyond the region advances \<^verbatim>\<open>cp\<close>. An
  MSS option (kind 2, length 4) followed by a Fast-Open option with a cookie is reported
  as "no cookie", although the header contains one.
\<close>

theorem tfocookie_generic_returns_false:
  "tfocookie (segment 50000 1 0 [2, 4, 5, 180, 34, 6, 1, 2, 3, 4, 1, 1] []) = Some (Inr RFalse)
   \<and> tfocookie (segment 50000 1 0 [34, 6, 1, 2, 3, 4, 1, 1] []) = Some (Inr (RTuple 0 34))"
proof -
  have a: "tfocookie_loop (Bytes [2, 4, 5, 180, 34, 6, 1, 2, 3, 4, 1, 1]) 0 = Some (Inr RFalse)"
    by code_simp
  have b: "tfocookie_loop (Bytes [34, 6, 1, 2, 3, 4, 1, 1]) 0 = Some (Inr (RTuple 0 34))"
    by code_simp
  show ?thesis
    using a b by (simp add: tfocookie_segment)
qed

text \<open>
  The generic rule never continues the scan inside the region: it returns \<^verbatim>\<open>False\<close>,
  raises, or moves \<^verbatim>\<open>cp\<close> beyond the end of the buffer.
\<close>

lemma tfocookie_generic_never_scans_on:
  assumes "cp < length bs" and "bs ! cp \<notin> {0, 1, 34, 253}" and "bs ! 0 \<noteq> 254"
  shows "tfocookie_step (Bytes bs) cp = Return (Inr RFalse)
         \<or> tfocookie_step (Bytes bs) cp = Return (Inl IndexError)
         \<or> (\<exists>cp'. tfocookie_step (Bytes bs) cp = Continue (Bytes bs) cp' \<and> length bs < cp')"
  using assms
  by (auto simp: tfocookie_step_def tfocookie_tail_def with_item_def)

section \<open>The Fast-Open handlers\<close>

lemma tfocookie_no_options:
  "tfocookie (segment sport seqno ackno [] payload) = Some (Inr RNone)"
proof -
  have "tfocookie_loop (Bytes []) 0 = Some (Inr RNone)"
    by (simp add: tfocookie_loop.simps tfocookie_step_def)
  then show ?thesis by (simp add: tfocookie_segment)
qed

text \<open>
  Claim C6, as amended. Line 102 requires \<^verbatim>\<open>rec['tfo_seq'] > 0\<close>, so the recorded
  sequence number must be positive, and the parser runs on the incoming segment before
  any test. For a flow context with recorded sequence number \<open>S > 0\<close> and length \<open>L\<close>,
  an incoming segment (source port other than the context's local port) on which the
  parser returns and whose acknowledgment number is \<open>S + L + 1\<close> sets
  \<^verbatim>\<open>rec['tfoworking']\<close> to 2 and the handler returns \<^verbatim>\<open>False\<close>.
\<close>

theorem tfoworking_acked:
  assumes "rec_sp r \<noteq> src_port t"
    and "0 < rec_tfo_seq r"
    and "ack_nbr t = rec_tfo_seq r + rec_tfo_len r + 1"
    and "tfocookie t = Some (Inr c)"
  shows "tfoworking r t rev' = Some (Inr (r\<lparr>rec_tfoworking := 2\<rparr>, False))"
  using assms by (simp add: tfoworking_def Let_def)

text \<open>
  The run of the specification: an outgoing SYN with a cookie, sequence number 1000 and
  4 bytes of payload is recorded; the incoming ACK with acknowledgment number 1005 then
  ends in state 2 (ACKED) and stops the tracking.
\<close>

theorem tfoworking_acked_witness:
  "tfoworking (new_flow 50000) (segment 50000 1000 0 [34, 6, 1, 2, 3, 4, 1, 1] [71, 69, 84, 32]) False
     = Some (Inr (\<lparr>rec_sp = 50000, rec_tfo_seq = 1000, rec_tfo_len = 4, rec_tfoworking = 1\<rparr>, True))
   \<and> tfoworking \<lparr>rec_sp = 50000, rec_tfo_seq = 1000, rec_tfo_len = 4, rec_tfoworking = 1\<rparr>
        (segment 80 7000 1005 [] []) False
     = Some (Inr (\<lparr>rec_sp = 50000, rec_tfo_seq = 1000, rec_tfo_len = 4, rec_tfoworking = 2\<rparr>, False))"
proof -
  have syn: "tfocookie (segment 50000 1000 0 [34, 6, 1, 2, 3, 4, 1, 1] [71, 69, 84, 32])
             = Some (Inr (RTuple 0 34))"
    by (simp add: tfocookie_segment) code_simp
  have first: "tfoworking (new_flow 50000)
       (segment 50000 1000 0 [34, 6, 1, 2, 3, 4, 1, 1] [71, 69, 84, 32]) False
     = Some (Inr (\<lparr>rec_sp = 50000, rec_tfo_seq = 1000, rec_tfo_len = 4, rec_tfoworking = 1\<rparr>, True))"
    by (simp add: tfoworking_def syn new_flow_def tfosetup_def) (simp add: segment_def)
  have second: "tfoworking \<lparr>rec_sp = 50000, rec_tfo_seq = 1000, rec_tfo_len = 4, rec_tfoworking = 1\<rparr>
        (segment 80 7000 1005 [] []) False
     = Some (Inr (\<lparr>rec_sp = 50000, rec_tfo_seq = 1000, rec_tfo_len = 4, rec_tfoworking = 1\<rparr>
                   \<lparr>rec_tfoworking := 2\<rparr>, False))"
    by (rule tfoworking_acked [where c = RNone])
       (simp_all add: tfocookie_no_options, simp_all add: segment_def)
  from first second show ?thesis by simp
qed

text \<open>
  The claim as stated fails for the recorded sequence number 0: the SYN with a cookie and
  sequence number 0 is recorded like any other (line 93 takes only negative values as
  "nothing recorded"), but the ACK with acknowledgment number \<open>0 + 4 + 1\<close> leaves the
  state at 1 and the handler returns \<^verbatim>\<open>True\<close>. And an ACK with the right acknowledgment
  number whose options are four NOPs makes the handler raise the parser's IndexError.
\<close>

theorem tfoworking_acked_counterexample:
  "tfoworking (new_flow 50000) (segment 50000 0 0 [34, 6, 1, 2, 3, 4, 1, 1] [71, 69, 84, 32]) False
     = Some (Inr (\<lparr>rec_sp = 50000, rec_tfo_seq = 0, rec_tfo_len = 4, rec_tfoworking = 1\<rparr>, True))
   \<and> tfoworking \<lparr>rec_sp = 50000, rec_tfo_seq = 0, rec_tfo_len = 4, rec_tfoworking = 1\<rparr>
        (segment 80 7000 5 [] []) False
     = Some (Inr (\<lparr>rec_sp = 50000, rec_tfo_seq = 0, rec_tfo_len = 4, rec_tfoworking = 1\<rparr>, True))
   \<and> tfoworking \<lparr>rec_sp = 50000, rec_tfo_seq = 1000, rec_tfo_len = 4, rec_tfoworking = 1\<rparr>
        (segment 80 7000 1005 [1, 1, 1, 1] []) False
     = Some (Inl IndexError)"
proof -
  have nops: "tfocookie (segment 80 7000 1005 [1, 1, 1, 1] []) = Some (Inl IndexError)"
    by (simp add: tfocookie_segment) code_simp
  have third: "tfoworking \<lparr>rec_sp = 50000, rec_tfo_seq = 1000, rec_tfo_len = 4, rec_tfoworking = 1\<rparr>
        (segment 80 7000 1005 [1, 1, 1, 1] []) False
     = Some (Inl IndexError)"
    by (simp add: tfoworking_def nops)
  have syn: "tfocookie (segment 50000 0 0 [34, 6, 1, 2, 3, 4, 1, 1] [71, 69, 84, 32])
             = Some (Inr (RTuple 0 34))"
    by (simp add: tfocookie_segment) code_simp
  have first: "tfoworking (new_flow 50000)
       (segment 50000 0 0 [34, 6, 1, 2, 3, 4, 1, 1] [71, 69, 84, 32]) False
     = Some (Inr (\<lparr>rec_sp = 50000, rec_tfo_seq = 0, rec_tfo_len = 4, rec_tfoworking = 1\<rparr>, True))"
    by (simp add: tfoworking_def syn new_flow_def tfosetup_def) (simp add: segment_def)
  have second: "tfoworking \<lparr>rec_sp = 50000, rec_tfo_seq = 0, rec_tfo_len = 4, rec_tfoworking = 1\<rparr>
        (segment 80 7000 5 [] []) False
     = Some (Inr (\<lparr>rec_sp = 50000, rec_tfo_seq = 0, rec_tfo_len = 4, rec_tfoworking = 1\<rparr>, True))"
    by (simp add: tfoworking_def tfocookie_no_options) (simp add: segment_def)
  from first second third show ?thesis by simp
qed

text \<open>
  Claim C7, as amended. Line 106 compares the segment's sequence number with
  \<^verbatim>\<open>rec['tfo_seq'] + 1\<close>: the SYN takes one sequence number, so the data sent again
  after a fallback starts at \<open>S + 1\<close>, not at \<open>S\<close>. For a flow context with recorded
  sequence number \<open>S \<ge> 0\<close> and an outgoing segment without a cookie on which the parser
  returns: when the segment has payload and its sequence number is \<open>S + 1\<close>, the
  handler sets \<^verbatim>\<open>rec['tfo_seq']\<close> and \<^verbatim>\<open>rec['tfo_len']\<close> to the sentinel -500 and
  returns \<^verbatim>\<open>True\<close>; when its sequence number is \<open>S\<close> itself, the handler leaves the
  context as it is and returns \<^verbatim>\<open>True\<close>.
\<close>

theorem tfoworking_fallback:
  assumes "rec_sp r = src_port t"
    and "0 \<le> rec_tfo_seq r"
    and "tfocookie t = Some (Inr c)"
    and "\<not> cookie_bool c"
  shows "(seq_nbr t = rec_tfo_seq r + 1 \<and> int (doff t) * 4 < int (length (data t)) \<longrightarrow>
            tfoworking r t rev'
              = Some (Inr (r\<lparr>rec_tfo_seq := - 500, rec_tfo_len := - 500\<rparr>, True)))
         \<and> (seq_nbr t = rec_tfo_seq r \<longrightarrow> tfoworking r t rev' = Some (Inr (r, True)))"
  using assms by (simp add: tfoworking_def Let_def)

text \<open>
  After the SYN recorded at sequence number 1000: the data sent again at 1001 without
  a cookie clears the recorded values to -500; a segment at 1000 changes nothing.
\<close>

theorem tfoworking_fallback_witness:
  "tfoworking \<lparr>rec_sp = 50000, rec_tfo_seq = 1000, rec_tfo_len = 4, rec_tfoworking = 1\<rparr>
        (segment 50000 1001 0 [] [71, 69, 84, 32]) False
     = Some (Inr (\<lparr>rec_sp = 50000, rec_tfo_seq = - 500, rec_tfo_len = - 500, rec_tfoworking = 1\<rparr>, True))
   \<and> tfoworking \<lparr>rec_sp = 50000, rec_tfo_seq = 1000, rec_tfo_len = 4, rec_tfoworking = 1\<rparr>
        (segment 50000 1000 0 [] []) False
     = Some (Inr (\<lparr>rec_sp = 50000, rec_tfo_seq = 1000, rec_tfo_len = 4, rec_tfoworking = 1\<rparr>, True))"
proof -
  define r where "r = \<lparr>rec_sp = 50000, rec_tfo_seq = 1000, rec_tfo_len = 4, rec_tfoworking = 1\<rparr>"
  have a: "tfoworking r (segment 50000 1001 0 [] [71, 69, 84, 32]) False
         = Some (Inr (r\<lparr>rec_tfo_seq := - 500, rec_tfo_len := - 500\<rparr>, True))"
    using tfoworking_fallback [of r "segment 50000 1001 0 [] [71, 69, 84, 32]" RNone False]
    by (simp add: tfocookie_no_options) (simp add: segment_def r_def)
  have b: "tfoworking r (segment 50000 1000 0 [] []) False = Some (Inr (r, True))"
    using tfoworking_fallback [of r "segment 50000 1000 0 [] []" RNone False]
    by (simp add: tfocookie_no_options) (simp add: segment_def r_def)
  from a b show ?thesis by (simp add: r_def)
qed

text \<open>
  The claim as stated fails: a segment sent again at the recorded sequence number 1000
  itself, with payload and without a cookie, matches none of the tests; the recorded
  sequence number and length stay 1000 and 4.
\<close>

theorem tfoworking_fallback_counterexample:
  "tfoworking \<lparr>rec_sp = 50000, rec_tfo_seq = 1000, rec_tfo_len = 4, rec_tfoworking = 1\<rparr>
        (segment 50000 1000 0 [] [71, 69, 84, 32]) False
     = Some (Inr (\<lparr>rec_sp = 50000, rec_tfo_seq = 1000, rec_tfo_len = 4, rec_tfoworking = 1\<rparr>, True))"
  by (simp add: tfoworking_def tfocookie_no_options) (simp add: segment_def)

text \<open>Every path through the handler but the ACKED one returns \<^verbatim>\<open>True\<close>.\<close>

lemma tfoworking_stops_only_when_acked:
  "tfoworking r t rev' = Some (Inr (r', False)) \<Longrightarrow> r' = r\<lparr>rec_tfoworking := 2\<rparr>"
  by (auto simp: tfoworking_def Let_def split: option.splits sum.splits if_splits)

section \<open>The active connection attempt\<close>

text \<open>
  Claim C2. \<^verbatim>\<open>connect\<close> is to return a Connection with state OK, FAILED or TIMEOUT
  for every job and configuration, and to let no exception escape. It does not. With
  \<^verbatim>\<open>config == 0\<close> the socket is created outside the \<^verbatim>\<open>try\<close>, so an OSError of
  \<^verbatim>\<open>socket.socket\<close> (no file descriptor left, address family not supported) escapes,
  where the \<^verbatim>\<open>config == 1\<close> path creates its sockets inside the \<^verbatim>\<open>try\<close>. The handlers
  catch TimeoutError and OSError only, so the OverflowError that \<^verbatim>\<open>sock.connect\<close> raises
  for a port beyond 65535 escapes. With \<^verbatim>\<open>config == 1\<close> and no socket created, the
  handler itself raises UnboundLocalError on \<^verbatim>\<open>sock\<close>. The classification works where
  the exception is raised inside the \<^verbatim>\<open>try\<close> and the handler can read the port.
\<close>

theorem connect_exception_escapes:
  "connect (env_ok\<lparr>socket_new := (\<lambda>a n. Some OSError)\<rparr>) (''203.0.113.10'', 80, ''example.org'') 0
     = Inl OSError
   \<and> connect (env_ok\<lparr>sock_connect := (\<lambda>s a. Some OverflowError)\<rparr>)
        (''203.0.113.10'', 70000, ''example.org'') 0
     = Inl OverflowError
   \<and> connect (env_ok\<lparr>socket_new := (\<lambda>a n. Some OSError)\<rparr>) (''203.0.113.10'', 80, ''example.org'') 1
     = Inl UnboundLocalError
   \<and> connect (env_ok\<lparr>sock_connect := (\<lambda>s a. Some TimeoutError)\<rparr>)
        (''203.0.113.10'', 80, ''example.org'') 0
     = Inr (Some (Connection (Sock 0) 40000 CONN_TIMEOUT))"
  by (simp add: connect_def env_ok_def py_then_def py_bind_def handlers_def make_connection_def
      is_TimeoutError_def is_OSError_def)

text \<open>
  Where every call of the try block either succeeds or raises an OSError, and the
  socket exists and its port can be read, the outcome is one of the three.
\<close>

lemma connect_config0_classified:
  assumes "socket_new env (if count_list (fst job) (CHR '':'') \<ge> 1 then AF_INET6 else AF_INET) 0 = None"
    and "getsockname env (Sock 0) = Inr p"
    and "settimeout env (Sock 0) \<in> {None, Some OSError, Some TimeoutError}"
    and "sock_connect env (Sock 0) (fst job, fst (snd job)) \<in> {None, Some OSError, Some TimeoutError}"
  shows "\<exists>st \<in> {CONN_OK, CONN_FAILED, CONN_TIMEOUT}. connect env job 0 = Inr (Some (Connection (Sock 0) p st))"
  using assms
  by (auto simp: connect_def py_then_def py_bind_def handlers_def make_connection_def
      is_TimeoutError_def is_OSError_def Let_def)

section \<open>The correlator's merge\<close>

text \<open>
  Claim C3, as amended. \<^verbatim>\<open>TFOSpider.merge\<close> puts exactly one merged record on the
  output queue for every Active Record. When the flow is the unobserved placeholder,
  the keys of that record are exactly dip, sp, dp, connstate, tfostate and observed,
  the first five taken from the Active Record and observed set to \<^verbatim>\<open>False\<close>: no byte
  or packet counter is among them. When the flow is a flow dictionary, the record is
  that dictionary with connstate, host, rank and tfostate taken from the Active Record
  and observed set to \<^verbatim>\<open>True\<close>, every other key as the flow has it.
  \<^verbatim>\<open>EcnSpider2.merge\<close> has no placeholder and its record has no observed flag: for
  every Flow Record it hands one \<^verbatim>\<open>MergedRecord\<close> to the sink, with the five fields of
  the Active Record and the seven counters and flags of the Flow Record.
\<close>

theorem merge_records:
  "(\<exists>m. merge NO_FLOW res outqueue = outqueue @ [m]
        \<and> dom m = {''dip'', ''sp'', ''dp'', ''connstate'', ''tfostate'', ''observed''}
        \<and> m ''observed'' = Some (PBool False)
        \<and> m ''dip'' = Some (sr_ip res) \<and> m ''sp'' = Some (sr_port res)
        \<and> m ''dp'' = Some (sr_rport res) \<and> m ''connstate'' = Some (sr_connstate res)
        \<and> m ''tfostate'' = Some (sr_tfostate res))
   \<and> (\<exists>m. merge (Flow d) res outqueue = outqueue @ [m]
        \<and> m ''observed'' = Some (PBool True)
        \<and> m ''connstate'' = Some (sr_connstate res) \<and> m ''host'' = Some (sr_host res)
        \<and> m ''rank'' = Some (sr_rank res) \<and> m ''tfostate'' = Some (sr_tfostate res)
        \<and> (\<forall>k. k \<notin> {''connstate'', ''host'', ''rank'', ''tfostate'', ''observed''}
              \<longrightarrow> m k = d k))
   \<and> (\<exists>mr. ecn_merge (Flow f) eres sink = Inr (sink @ [mr])
        \<and> mr_ip mr = er_ip eres \<and> mr_host mr = er_host eres
        \<and> mr_ecnstate mr = er_ecnstate eres \<and> mr_connstate mr = er_connstate eres
        \<and> mr_httpstatus mr = er_httpstatus eres
        \<and> mr_octets mr = fr_octets f \<and> mr_fif mr = fr_fif f \<and> mr_fsf mr = fr_fsf f
        \<and> mr_fuf mr = fr_fuf f \<and> mr_fir mr = fr_fir f \<and> mr_fsr mr = fr_fsr f
        \<and> mr_fur mr = fr_fur f)"
proof (intro conjI)
  show "\<exists>m. merge NO_FLOW res outqueue = outqueue @ [m]
        \<and> dom m = {''dip'', ''sp'', ''dp'', ''connstate'', ''tfostate'', ''observed''}
        \<and> m ''observed'' = Some (PBool False)
        \<and> m ''dip'' = Some (sr_ip res) \<and> m ''sp'' = Some (sr_port res)
        \<and> m ''dp'' = Some (sr_rport res) \<and> m ''connstate'' = Some (sr_connstate res)
        \<and> m ''tfostate'' = Some (sr_tfostate res)"
    by (auto simp: merge_def Let_def)
next
  show "\<exists>m. merge (Flow d) res outqueue = outqueue @ [m]
        \<and> m ''observed'' = Some (PBool True)
        \<and> m ''connstate'' = Some (sr_connstate res) \<and> m ''host'' = Some (sr_host res)
        \<and> m ''rank'' = Some (sr_rank res) \<and> m ''tfostate'' = Some (sr_tfostate res)
        \<and> (\<forall>k. k \<notin> {''connstate'', ''host'', ''rank'', ''tfostate'', ''observed''}
              \<longrightarrow> m k = d k)"
    by (simp add: merge_def Let_def)
next
  show "\<exists>mr. ecn_merge (Flow f) eres sink = Inr (sink @ [mr])
        \<and> mr_ip mr = er_ip eres \<and> mr_host mr = er_host eres
        \<and> mr_ecnstate mr = er_ecnstate eres \<and> mr_connstate mr = er_connstate eres
        \<and> mr_httpstatus mr = er_httpstatus eres
        \<and> mr_octets mr = fr_octets f \<and> mr_fif mr = fr_fif f \<and> mr_fsf mr = fr_fsf f
        \<and> mr_fuf mr = fr_fuf f \<and> mr_fir mr = fr_fir f \<and> mr_fsr mr = fr_fsr f
        \<and> mr_fur mr = fr_fur f"
    by (simp add: ecn_merge_def)
qed

text \<open>
  An observed Fast-Open flow with a forward octet counter and a stale \<^verbatim>\<open>observed\<close>
  entry: the merged record keeps the counter and the local port, and is marked
  observed, with the connection state of the Active Record.
\<close>

theorem merge_records_witness:
  "\<exists>m. merge (Flow [''sp'' \<mapsto> PInt 40000, ''oct_fwd'' \<mapsto> PInt 1500, ''observed'' \<mapsto> PBool False])
          \<lparr>sr_ip = PStr ''203.0.113.10'', sr_rport = PInt 80, sr_port = PInt 40000,
           sr_host = PStr ''example.org'', sr_tfostate = PInt 1, sr_connstate = PBool True,
           sr_rank = PInt 7\<rparr> [] = [m]
       \<and> m ''oct_fwd'' = Some (PInt 1500) \<and> m ''sp'' = Some (PInt 40000)
       \<and> m ''observed'' = Some (PBool True) \<and> m ''connstate'' = Some (PBool True)"
proof -
  define d where "d = [''sp'' \<mapsto> PInt 40000, ''oct_fwd'' \<mapsto> PInt 1500, ''observed'' \<mapsto> PBool False]"
  define res where "res = \<lparr>sr_ip = PStr ''203.0.113.10'', sr_rport = PInt 80, sr_port = PInt 40000,
           sr_host = PStr ''example.org'', sr_tfostate = PInt 1, sr_connstate = PBool True,
           sr_rank = PInt 7\<rparr>"
  from merge_records [of res "[]" d] obtain m where m: "merge (Flow d) res [] = [] @ [m]"
    "m ''observed'' = Some (PBool True)" "m ''connstate'' = Some (sr_connstate res)"
    "\<forall>k. k \<notin> {''connstate'', ''host'', ''rank'', ''tfostate'', ''observed''} \<longrightarrow> m k = d k"
    by blast
  from m(4) [rule_format, of "''oct_fwd''"] have "m ''oct_fwd'' = Some (PInt 1500)"
    by (simp add: d_def)
  moreover from m(4) [rule_format, of "''sp''"] have "m ''sp'' = Some (PInt 40000)"
    by (simp add: d_def)
  moreover from m(3) have "m ''connstate'' = Some (PBool True)"
    by (simp add: res_def)
  ultimately show ?thesis
    using m(1,2) unfolding d_def res_def by auto
qed

text \<open>
  The claim as stated fails for \<^verbatim>\<open>EcnSpider2.merge\<close>: given the placeholder, it reads
  \<^verbatim>\<open>flow.octets\<close>, raises AttributeError and hands no record to the sink.
\<close>

theorem ecn_merge_placeholder_counterexample:
  "ecn_merge NO_FLOW
     \<lparr>er_ip = PStr ''203.0.113.10'', er_host = PStr ''example.org'', er_port = PInt 40000,
      er_ecnstate = PInt 1, er_connstate = PBool True, er_httpstatus = PInt 200\<rparr> []
   = Inl AttributeError"
  by (simp add: ecn_merge_def)

section \<open>Flow demultiplexing\<close>

lemma short_circuit_never_passes:
  "short_circuit fl \<noteq> Inr False"
  by (auto simp: short_circuit_def py_bind_def py_int_op_def TCP_RST_def or_eq_0_iff
      split: sum.splits option.splits)

text \<open>
  The third test of the try block is \<^verbatim>\<open>flow["initialTCPFlags"] | TCP_RST\<close>, which is
  never zero. So the method returns \<^verbatim>\<open>None\<close> for every flow; nothing after line 146
  is ever reached.
\<close>

lemma tupleize_flow_always_None:
  "tupleize_flow self fl = Inr None"
  using short_circuit_never_passes [of fl]
  by (auto simp: tupleize_flow_def split: sum.splits bool.splits)

text \<open>
  Claim C8. \<^verbatim>\<open>tupleize_flow\<close> is to drop the flows that are not TCP, not to port 80,
  that start with RST or that come from another source, and to turn every remaining
  flow into a FlowRecord. It drops the remaining flows too: for the HTTP flow from the
  local IPv4 address whose first flags are a plain SYN the method returns \<^verbatim>\<open>None\<close>,
  because line 143 combines the flags with \<^verbatim>\<open>|\<close> where a test for RST needs \<^verbatim>\<open>&\<close>.
\<close>

theorem tupleize_flow_drops_http_flow:
  "tupleize_flow \<lparr>local_ip4 = PStr ''192.0.2.1'', local_ip6 = PStr ''2001:db8::1''\<rparr> http_flow
     = Inr None"
  by (simp add: tupleize_flow_def short_circuit_def py_bind_def py_int_op_def TCP_RST_def
      http_flow_def lookup_def)

section \<open>The resolver client\<close>

lemma take_loop_enough:
  "n \<le> length xs \<Longrightarrow> take_loop n xs = (take n xs, None)"
  by (induction n xs rule: take_loop.induct) auto

lemma take_loop_short:
  "length xs < n \<Longrightarrow> take_loop n xs = (xs, Some StopIteration)"
  by (induction n xs rule: take_loop.induct) auto

text \<open>
  Claim C10. For a count that is not negative and an iterable with at least that many
  elements, \<^verbatim>\<open>take\<close> yields exactly the first \<open>count\<close> elements in order and ends. For
  an iterable with fewer elements it yields them all and then raises, at \<^verbatim>\<open>next(it)\<close>,
  instead of ending.
\<close>

theorem take_py_prefix_or_raise:
  "(0 \<le> count \<and> count \<le> int (length xs) \<longrightarrow> take_py count xs = (take (nat count) xs, None))
   \<and> (int (length xs) < count \<longrightarrow> take_py count xs = (xs, Some StopIteration))"
proof (intro conjI impI)
  assume "0 \<le> count \<and> count \<le> int (length xs)"
  then have "nat count \<le> length xs" by linarith
  then show "take_py count xs = (take (nat count) xs, None)"
    by (simp add: take_py_def take_loop_enough)
next
  assume "int (length xs) < count"
  then have "length xs < nat count" by linarith
  then show "take_py count xs = (xs, Some StopIteration)"
    by (simp add: take_py_def take_loop_short)
qed

theorem take_py_prefix_or_raise_witness:
  "take_py 2 [10, 20, 30 :: int] = ([10, 20], None)
   \<and> take_py 5 [10, 20, 30 :: int] = ([10, 20, 30], Some StopIteration)"
  using take_py_prefix_or_raise [of 2 "[10, 20, 30 :: int]"]
        take_py_prefix_or_raise [of 5 "[10, 20, 30 :: int]"]
  by simp

lemma events_emit [simp]: "events (emit w e s) = events s @ [(clock s, e)]"
  by (simp add: emit_def)

lemma clock_emit [simp]: "clock (emit w e s) = clock s + took w (length (events s))"
  by (simp add: emit_def)

lemma poll_times_emit [simp]:
  "poll_times (emit w e s) = poll_times s @ (if e = ResultFor then [clock s] else [])"
  by (simp add: emit_def poll_times_def)

lemma events_sleep [simp]: "events (sleep w d s) = events s @ [(clock s, Sleep)]"
  by (simp add: sleep_def Let_def)

lemma clock_sleep [simp]: "clock (sleep w d s) = clock s + took w (length (events s)) + d"
  by (simp add: sleep_def Let_def)

lemma poll_times_sleep [simp]: "poll_times (sleep w d s) = poll_times s"
  by (simp add: poll_times_def)

lemma poll_times_refresh [simp]: "poll_times (refresh w s) = poll_times s"
  by (simp add: refresh_def poll_times_def Let_def)

lemma clock_refresh:
  assumes "\<forall>n. 0 \<le> took w n"
  shows "clock s \<le> clock (refresh w s)"
proof -
  have "0 \<le> took w (length (events s))" and "0 \<le> took w (Suc (length (events s)))"
    using assms by blast+
  then show ?thesis by (simp add: refresh_def Let_def)
qed

text \<open>The log only grows.\<close>

lemma events_refresh: "\<exists>es. events (refresh w s) = events s @ es"
  by (simp add: refresh_def Let_def)

lemma fetch_loop_events:
  "\<exists>es. events (snd (fetch_loop w request_timeout time_spent s)) = events s @ es"
proof (induction w request_timeout time_spent s rule: fetch_loop.induct)
  case (1 w request_timeout time_spent s)
  show ?case
  proof (cases "time_spent < request_timeout")
    case False
    then show ?thesis by (simp add: fetch_loop.simps [of w request_timeout time_spent s])
  next
    case True
    define s0 where "s0 = refresh w s"
    define s1 where "s1 = emit w ResultFor s0"
    obtain es0 where es0: "events s0 = events s @ es0"
      unfolding s0_def using events_refresh by blast
    show ?thesis
    proof (cases "result_for w (length (poll_times s0))")
      case Receipt
      from 1(1) [OF True s0_def s1_def Receipt] obtain es where
        "events (snd (fetch_loop w request_timeout (time_spent + 5) (sleep w 5 s1)))
           = events (sleep w 5 s1) @ es" by blast
      with True Receipt show ?thesis
        by (simp add: fetch_loop.simps [of w request_timeout time_spent s]
            s0_def [symmetric] s1_def [symmetric] Let_def) (simp add: s1_def es0)
    next
      case Other
      from 1(2) [OF True s0_def s1_def Other] obtain es where
        "events (snd (fetch_loop w request_timeout (time_spent + 5)
            (sleep w 5 (emit w PrintResult s1))))
           = events (sleep w 5 (emit w PrintResult s1)) @ es" by blast
      with True Other show ?thesis
        by (simp add: fetch_loop.simps [of w request_timeout time_spent s]
            s0_def [symmetric] s1_def [symmetric] Let_def) (simp add: s1_def es0)
    next
      case MException
      with True show ?thesis
        by (simp add: fetch_loop.simps [of w request_timeout time_spent s]
            s0_def [symmetric] s1_def [symmetric] Let_def) (simp add: s1_def es0)
    next
      case (MResult rows)
      with True show ?thesis
        by (simp add: fetch_loop.simps [of w request_timeout time_spent s]
            s0_def [symmetric] s1_def [symmetric] Let_def) (simp add: s1_def es0)
    qed
  qed
qed

text \<open>
  A run that enters the loop starts with the refresh, when it is due, and with the
  poll otherwise.
\<close>

lemma fetch_loop_first_event:
  assumes "events s = []" and "time_spent < request_timeout"
  shows "hd (events (snd (fetch_loop w request_timeout time_spent s)))
           = (clock s, if last_updated s + 5 < clock s then RetrieveCapabilities else ResultFor)"
proof -
  define s1 where "s1 = emit w ResultFor (refresh w s)"
  have start: "events s1 \<noteq> []"
    "hd (events s1) = (clock s, if last_updated s + 5 < clock s then RetrieveCapabilities else ResultFor)"
    using assms(1) by (simp_all add: s1_def refresh_def Let_def)
  have "\<exists>es. events (snd (fetch_loop w request_timeout time_spent s)) = events s1 @ es"
  proof (cases "result_for w (length (poll_times (refresh w s)))")
    case Receipt
    obtain es where
      "events (snd (fetch_loop w request_timeout (time_spent + 5) (sleep w 5 s1)))
         = events (sleep w 5 s1) @ es"
      using fetch_loop_events by blast
    with assms(2) Receipt show ?thesis
      by (simp add: fetch_loop.simps [of w request_timeout time_spent s] s1_def [symmetric] Let_def
          del: poll_times_refresh)
  next
    case Other
    obtain es where
      "events (snd (fetch_loop w request_timeout (time_spent + 5)
          (sleep w 5 (emit w PrintResult s1))))
         = events (sleep w 5 (emit w PrintResult s1)) @ es"
      using fetch_loop_events by blast
    with assms(2) Other show ?thesis
      by (simp add: fetch_loop.simps [of w request_timeout time_spent s] s1_def [symmetric] Let_def
          del: poll_times_refresh)
  next
    case MException
    with assms(2) show ?thesis
      by (simp add: fetch_loop.simps [of w request_timeout time_spent s] s1_def [symmetric] Let_def
          del: poll_times_refresh)
  next
    case (MResult rows)
    with assms(2) show ?thesis
      by (simp add: fetch_loop.simps [of w request_timeout time_spent s] s1_def [symmetric] Let_def
          del: poll_times_refresh)
  qed
  then obtain es where "events (snd (fetch_loop w request_timeout time_spent s)) = events s1 @ es"
    by blast
  with start show ?thesis by simp
qed

lemma spaced_snoc:
  assumes "sorted_wrt (\<lambda>a b. a + 5 \<le> b) ts" and "\<forall>t \<in> set ts. t + 5 \<le> (c :: real)"
  shows "sorted_wrt (\<lambda>a b. a + 5 \<le> b) (ts @ [c])"
  using assms by (simp add: sorted_wrt_append)

text \<open>
  Two calls of \<^verbatim>\<open>result_for\<close> are at least 5 seconds apart, when no call to the outside
  takes a negative time: the invariant of the loop is that every earlier call is at
  least 5 seconds older than the clock.
\<close>

lemma fetch_loop_spaced:
  assumes "\<forall>n. 0 \<le> took w n"
    and "sorted_wrt (\<lambda>a b. a + 5 \<le> b) (poll_times s)"
    and "\<forall>t \<in> set (poll_times s). t + 5 \<le> clock s"
  shows "sorted_wrt (\<lambda>a b. a + 5 \<le> b) (poll_times (snd (fetch_loop w request_timeout time_spent s)))"
  using assms
proof (induction w request_timeout time_spent s rule: fetch_loop.induct)
  case (1 w request_timeout time_spent s)
  note tk = \<open>\<forall>n. 0 \<le> took w n\<close>
  show ?case
  proof (cases "time_spent < request_timeout")
    case False
    with 1(4) show ?thesis by (simp add: fetch_loop.simps [of w request_timeout time_spent s])
  next
    case True
    define s0 where "s0 = refresh w s"
    define s1 where "s1 = emit w ResultFor s0"
    have c0: "clock s \<le> clock s0"
      unfolding s0_def using tk by (rule clock_refresh)
    have pt: "poll_times s1 = poll_times s @ [clock s0]"
      by (simp add: s1_def s0_def)
    have c1: "clock s0 \<le> clock s1"
      using tk by (simp add: s1_def)
    have sp: "sorted_wrt (\<lambda>a b. a + 5 \<le> b) (poll_times s1)"
      unfolding pt using 1(4,5) c0 by (intro spaced_snoc) auto
    have old: "\<forall>t \<in> set (poll_times s1). t + 5 \<le> clock s1 + 5"
      using 1(5) c0 c1 by (auto simp: pt)
    have t1: "0 \<le> took w (length (events s1))" and t2: "0 \<le> took w (Suc (length (events s1)))"
      using tk by blast+
    show ?thesis
    proof (cases "result_for w (length (poll_times s0))")
      case Receipt
      have "\<forall>t \<in> set (poll_times (sleep w 5 s1)). t + 5 \<le> clock (sleep w 5 s1)"
        using old t1 by auto
      with sp have "sorted_wrt (\<lambda>a b. a + 5 \<le> b)
              (poll_times (snd (fetch_loop w request_timeout (time_spent + 5) (sleep w 5 s1))))"
        by (intro 1(1) [OF True s0_def s1_def Receipt tk]) simp_all
      with True Receipt show ?thesis
        by (simp add: fetch_loop.simps [of w request_timeout time_spent s]
            s0_def [symmetric] s1_def [symmetric] Let_def)
    next
      case Other
      have "\<forall>t \<in> set (poll_times (sleep w 5 (emit w PrintResult s1))).
              t + 5 \<le> clock (sleep w 5 (emit w PrintResult s1))"
        using old t1 t2 by auto
      with sp have "sorted_wrt (\<lambda>a b. a + 5 \<le> b)
              (poll_times (snd (fetch_loop w request_timeout (time_spent + 5)
                 (sleep w 5 (emit w PrintResult s1)))))"
        by (intro 1(2) [OF True s0_def s1_def Other tk]) simp_all
      with True Other show ?thesis
        by (simp add: fetch_loop.simps [of w request_timeout time_spent s]
            s0_def [symmetric] s1_def [symmetric] Let_def)
    next
      case MException
      with True sp show ?thesis
        by (simp add: fetch_loop.simps [of w request_timeout time_spent s]
            s0_def [symmetric] s1_def [symmetric] Let_def)
    next
      case (MResult rows)
      with True sp show ?thesis
        by (simp add: fetch_loop.simps [of w request_timeout time_spent s]
            s0_def [symmetric] s1_def [symmetric] Let_def)
    qed
  qed
qed

text \<open>
  When every call of \<^verbatim>\<open>result_for\<close> that the loop makes before \<^verbatim>\<open>time_spent\<close> reaches
  the timeout answers with a Receipt (or something that is neither a Result nor an
  Exception), the loop polls once for every 5 seconds of the timeout and then raises
  TimeoutException.
\<close>

lemma fetch_loop_timeout:
  assumes "\<forall>k::nat. time_spent + 5 * int k < request_timeout
             \<longrightarrow> pending (result_for w (length (poll_times s) + k))"
  shows "fst (fetch_loop w request_timeout time_spent s) = Inl TimeoutException
         \<and> length (poll_times (snd (fetch_loop w request_timeout time_spent s)))
             = length (poll_times s) + nat ((request_timeout - time_spent + 4) div 5)"
  using assms
proof (induction w request_timeout time_spent s rule: fetch_loop.induct)
  case (1 w request_timeout time_spent s)
  show ?case
  proof (cases "time_spent < request_timeout")
    case False
    then have "nat ((request_timeout - time_spent + 4) div 5) = 0" by simp
    with False show ?thesis by (simp add: fetch_loop.simps [of w request_timeout time_spent s])
  next
    case True
    define s0 where "s0 = refresh w s"
    define s1 where "s1 = emit w ResultFor s0"
    have n0: "length (poll_times s0) = length (poll_times s)"
      by (simp add: s0_def)
    have n1: "length (poll_times s1) = Suc (length (poll_times s))"
      by (simp add: s1_def s0_def)
    from 1(3) [rule_format, of 0] True
    have now: "pending (result_for w (length (poll_times s0)))"
      by (simp add: n0)
    have later: "\<forall>k::nat. time_spent + 5 + 5 * int k < request_timeout
             \<longrightarrow> pending (result_for w (Suc (length (poll_times s)) + k))"
    proof (intro allI impI)
      fix k :: nat
      assume "time_spent + 5 + 5 * int k < request_timeout"
      then have "time_spent + 5 * int (Suc k) < request_timeout" by simp
      from 1(3) [rule_format, OF this]
      show "pending (result_for w (Suc (length (poll_times s)) + k))" by simp
    qed
    have count: "Suc (nat ((request_timeout - (time_spent + 5) + 4) div 5))
                   = nat ((request_timeout - time_spent + 4) div 5)"
      using True by linarith
    show ?thesis
    proof (cases "result_for w (length (poll_times s0))")
      case Receipt
      have "fst (fetch_loop w request_timeout (time_spent + 5) (sleep w 5 s1)) = Inl TimeoutException
            \<and> length (poll_times (snd (fetch_loop w request_timeout (time_spent + 5) (sleep w 5 s1))))
                = length (poll_times (sleep w 5 s1))
                  + nat ((request_timeout - (time_spent + 5) + 4) div 5)"
        using later by (intro 1(1) [OF True s0_def s1_def Receipt]) (simp add: n1)
      with True Receipt count show ?thesis
        by (simp add: fetch_loop.simps [of w request_timeout time_spent s]
            s0_def [symmetric] s1_def [symmetric] Let_def n1)
    next
      case Other
      have "fst (fetch_loop w request_timeout (time_spent + 5) (sleep w 5 (emit w PrintResult s1)))
              = Inl TimeoutException
            \<and> length (poll_times (snd (fetch_loop w request_timeout (time_spent + 5)
                  (sleep w 5 (emit w PrintResult s1)))))
                = length (poll_times (sleep w 5 (emit w PrintResult s1)))
                  + nat ((request_timeout - (time_spent + 5) + 4) div 5)"
        using later by (intro 1(2) [OF True s0_def s1_def Other]) (simp add: n1)
      with True Other count show ?thesis
        by (simp add: fetch_loop.simps [of w request_timeout time_spent s]
            s0_def [symmetric] s1_def [symmetric] Let_def n1)
    next
      case MException
      with now show ?thesis by simp
    next
      case (MResult rows)
      with now show ?thesis by simp
    qed
  qed
qed

text \<open>
  When the first answer that is a Result or an Exception comes at a poll that the loop
  still makes, the loop ends there: it returns the rows of a Result and \<^verbatim>\<open>None\<close> for an
  Exception, and it has polled no more.
\<close>

lemma fetch_loop_answer:
  assumes "time_spent + 5 * int k < request_timeout"
    and "\<forall>j<k. pending (result_for w (length (poll_times s) + j))"
    and "\<not> pending (result_for w (length (poll_times s) + k))"
  shows "fst (fetch_loop w request_timeout time_spent s)
           = (case result_for w (length (poll_times s) + k) of
                MResult rows \<Rightarrow> Inr (Some rows) | _ \<Rightarrow> Inr None)
         \<and> length (poll_times (snd (fetch_loop w request_timeout time_spent s)))
             = length (poll_times s) + Suc k"
  using assms
proof (induction k arbitrary: time_spent s)
  case 0
  define s0 where "s0 = refresh w s"
  define s1 where "s1 = emit w ResultFor s0"
  have n0: "length (poll_times s0) = length (poll_times s)"
    by (simp add: s0_def)
  have n1: "length (poll_times s1) = Suc (length (poll_times s))"
    by (simp add: s1_def s0_def)
  from 0 have lt: "time_spent < request_timeout" by simp
  from 0(3) have np: "\<not> pending (result_for w (length (poll_times s0)))" by (simp add: n0)
  show ?case
  proof (cases "result_for w (length (poll_times s0))")
    case MException
    with lt show ?thesis
      by (simp add: fetch_loop.simps [of w request_timeout time_spent s]
          s0_def [symmetric] s1_def [symmetric] Let_def n1) (simp add: n0 [symmetric])
  next
    case (MResult rows)
    with lt show ?thesis
      by (simp add: fetch_loop.simps [of w request_timeout time_spent s]
          s0_def [symmetric] s1_def [symmetric] Let_def n1) (simp add: n0 [symmetric])
  next
    case Receipt
    with np show ?thesis by simp
  next
    case Other
    with np show ?thesis by simp
  qed
next
  case (Suc k)
  define s0 where "s0 = refresh w s"
  define s1 where "s1 = emit w ResultFor s0"
  have n0: "length (poll_times s0) = length (poll_times s)"
    by (simp add: s0_def)
  have n1: "length (poll_times s1) = Suc (length (poll_times s))"
    by (simp add: s1_def s0_def)
  from Suc(2) have lt: "time_spent < request_timeout"
    and lt': "time_spent + 5 + 5 * int k < request_timeout" by simp_all
  from Suc(3) [rule_format, of 0] have now: "pending (result_for w (length (poll_times s0)))"
    by (simp add: n0)
  have step: "fst (fetch_loop w request_timeout (time_spent + 5) s2)
           = (case result_for w (length (poll_times s) + Suc k) of
                MResult rows \<Rightarrow> Inr (Some rows) | _ \<Rightarrow> Inr None)
         \<and> length (poll_times (snd (fetch_loop w request_timeout (time_spent + 5) s2)))
             = length (poll_times s) + Suc (Suc k)"
    if "length (poll_times s2) = Suc (length (poll_times s))" for s2
  proof -
    have a: "\<forall>j<k. pending (result_for w (length (poll_times s2) + j))"
    proof (intro allI impI)
      fix j assume "j < k"
      then have "Suc j < Suc k" by simp
      from Suc(3) [rule_format, OF this] show "pending (result_for w (length (poll_times s2) + j))"
        by (simp add: that)
    qed
    have b: "\<not> pending (result_for w (length (poll_times s2) + k))"
      using Suc(4) by (simp add: that)
    from Suc(1) [OF lt' a b] show ?thesis by (simp add: that)
  qed
  show ?case
  proof (cases "result_for w (length (poll_times s0))")
    case Receipt
    from step [of "sleep w 5 s1"] lt Receipt show ?thesis
      by (simp add: fetch_loop.simps [of w request_timeout time_spent s]
          s0_def [symmetric] s1_def [symmetric] Let_def n1)
  next
    case Other
    from step [of "sleep w 5 (emit w PrintResult s1)"] lt Other show ?thesis
      by (simp add: fetch_loop.simps [of w request_timeout time_spent s]
          s0_def [symmetric] s1_def [symmetric] Let_def n1)
  next
    case MException
    with now show ?thesis by simp
  next
    case (MResult rows)
    with now show ?thesis by simp
  qed
qed

lemma last_updated_emit [simp]: "last_updated (emit w e s) = last_updated s"
  by (simp add: emit_def)

lemma last_updated_sleep [simp]: "last_updated (sleep w d s) = last_updated s"
  by (simp add: sleep_def Let_def)

lemma refresh_times_emit [simp]:
  "refresh_times (emit w e s) = refresh_times s @ (if e = RetrieveCapabilities then [clock s] else [])"
  by (simp add: emit_def refresh_times_def)

lemma refresh_times_sleep [simp]: "refresh_times (sleep w d s) = refresh_times s"
  by (simp add: refresh_times_def)

lemma refresh_times_last_updated [simp]:
  "refresh_times (s\<lparr>last_updated := x\<rparr>) = refresh_times s"
  by (simp add: refresh_times_def)

text \<open>
  While \<^verbatim>\<open>retrieve_capabilities\<close> does not raise, two refreshes are more than 5 seconds
  apart: every earlier one is not younger than \<^verbatim>\<open>last_updated\<close>.
\<close>

lemma refresh_keeps_spacing:
  assumes "\<forall>n. 0 \<le> took w n" and "\<forall>n. \<not> retrieve_raises w n"
    and "sorted_wrt (\<lambda>a b. a + 5 < b) (refresh_times s)"
    and "\<forall>t \<in> set (refresh_times s). t \<le> last_updated s"
  shows "sorted_wrt (\<lambda>a b. a + 5 < b) (refresh_times (refresh w s))
         \<and> (\<forall>t \<in> set (refresh_times (refresh w s)). t \<le> last_updated (refresh w s))"
proof (cases "last_updated s + 5 < clock s")
  case False
  with assms(3,4) show ?thesis by (simp add: refresh_def)
next
  case True
  have tk: "0 \<le> took w (length (events s))" using assms(1) by blast
  have "\<forall>t \<in> set (refresh_times s). t + 5 < clock s"
    using assms(4) True by fastforce
  with assms(3) have "sorted_wrt (\<lambda>a b. a + 5 < b) (refresh_times s @ [clock s])"
    by (simp add: sorted_wrt_append)
  moreover have "\<forall>t \<in> set (refresh_times s @ [clock s]).
                  t \<le> clock s + took w (length (events s))"
    using assms(4) True tk by fastforce
  ultimately show ?thesis
    using True assms(2) by (simp add: refresh_def Let_def)
qed

lemma fetch_loop_refresh_spaced:
  assumes "\<forall>n. 0 \<le> took w n" and "\<forall>n. \<not> retrieve_raises w n"
    and "sorted_wrt (\<lambda>a b. a + 5 < b) (refresh_times s)"
    and "\<forall>t \<in> set (refresh_times s). t \<le> last_updated s"
  shows "sorted_wrt (\<lambda>a b. a + 5 < b)
           (refresh_times (snd (fetch_loop w request_timeout time_spent s)))"
  using assms
proof (induction w request_timeout time_spent s rule: fetch_loop.induct)
  case (1 w request_timeout time_spent s)
  note tk = \<open>\<forall>n. 0 \<le> took w n\<close> and nr = \<open>\<forall>n. \<not> retrieve_raises w n\<close>
  show ?case
  proof (cases "time_spent < request_timeout")
    case False
    with 1(5) show ?thesis by (simp add: fetch_loop.simps [of w request_timeout time_spent s])
  next
    case True
    define s0 where "s0 = refresh w s"
    define s1 where "s1 = emit w ResultFor s0"
    from refresh_keeps_spacing [OF tk nr 1(5,6)]
    have sp: "sorted_wrt (\<lambda>a b. a + 5 < b) (refresh_times s1)"
      and old: "\<forall>t \<in> set (refresh_times s1). t \<le> last_updated s1"
      by (simp_all add: s1_def s0_def)
    show ?thesis
    proof (cases "result_for w (length (poll_times s0))")
      case Receipt
      from sp old have "sorted_wrt (\<lambda>a b. a + 5 < b)
              (refresh_times (snd (fetch_loop w request_timeout (time_spent + 5) (sleep w 5 s1))))"
        by (intro 1(1) [OF True s0_def s1_def Receipt tk nr]) simp_all
      with True Receipt show ?thesis
        by (simp add: fetch_loop.simps [of w request_timeout time_spent s]
            s0_def [symmetric] s1_def [symmetric] Let_def)
    next
      case Other
      from sp old have "sorted_wrt (\<lambda>a b. a + 5 < b)
              (refresh_times (snd (fetch_loop w request_timeout (time_spent + 5)
                 (sleep w 5 (emit w PrintResult s1)))))"
        by (intro 1(2) [OF True s0_def s1_def Other tk nr]) simp_all
      with True Other show ?thesis
        by (simp add: fetch_loop.simps [of w request_timeout time_spent s]
            s0_def [symmetric] s1_def [symmetric] Let_def)
    next
      case MException
      with True sp show ?thesis
        by (simp add: fetch_loop.simps [of w request_timeout time_spent s]
            s0_def [symmetric] s1_def [symmetric] Let_def)
    next
      case (MResult rows)
      with True sp show ?thesis
        by (simp add: fetch_loop.simps [of w request_timeout time_spent s]
            s0_def [symmetric] s1_def [symmetric] Let_def)
    qed
  qed
qed

text \<open>
  Claim C9. \<^verbatim>\<open>_fetch_result\<close>, called at time \<^verbatim>\<open>clock\<close> with an empty log, polls the
  client once in each pass of its loop and sleeps 5 seconds after each poll. The
  capabilities are refreshed first only when more than 5 seconds have passed since
  \<^verbatim>\<open>last_updated\<close>, and not otherwise. When no call to the outside takes a negative
  time, two polls are at least 5 seconds apart and, while \<^verbatim>\<open>retrieve_capabilities\<close>
  does not raise, two refreshes are more than 5 seconds apart. The first poll that answers with a
  Result ends the call with its rows, the first that answers with an Exception ends it
  with \<^verbatim>\<open>None\<close>; when none of the polls made before \<^verbatim>\<open>time_spent\<close> reaches the request
  timeout (one for every 5 seconds of it) answers with either, the call raises
  TimeoutException instead of returning.
\<close>

theorem fetch_result_throttled_timeout:
  assumes "events s = []"
  shows
  "(clock s \<le> last_updated s + 5 \<longrightarrow> refresh w s = s)
   \<and> (0 < request_timeout \<longrightarrow>
        hd (events (snd (fetch_result w request_timeout s)))
          = (clock s, if last_updated s + 5 < clock s then RetrieveCapabilities else ResultFor))
   \<and> ((\<forall>n. 0 \<le> took w n) \<longrightarrow>
        sorted_wrt (\<lambda>a b. a + 5 \<le> b) (poll_times (snd (fetch_result w request_timeout s))))
   \<and> ((\<forall>n. 0 \<le> took w n) \<and> (\<forall>n. \<not> retrieve_raises w n) \<longrightarrow>
        sorted_wrt (\<lambda>a b. a + 5 < b) (refresh_times (snd (fetch_result w request_timeout s))))
   \<and> ((\<forall>k::nat. 5 * int k < request_timeout \<longrightarrow> pending (result_for w k)) \<longrightarrow>
        fst (fetch_result w request_timeout s) = Inl TimeoutException
        \<and> length (poll_times (snd (fetch_result w request_timeout s)))
            = nat ((request_timeout + 4) div 5))
   \<and> (\<forall>k rows. 5 * int k < request_timeout \<and> (\<forall>j<k. pending (result_for w j))
          \<and> result_for w k = MResult rows \<longrightarrow>
        fst (fetch_result w request_timeout s) = Inr (Some rows)
        \<and> length (poll_times (snd (fetch_result w request_timeout s))) = Suc k)
   \<and> (\<forall>k. 5 * int k < request_timeout \<and> (\<forall>j<k. pending (result_for w j))
          \<and> result_for w k = MException \<longrightarrow>
        fst (fetch_result w request_timeout s) = Inr None
        \<and> length (poll_times (snd (fetch_result w request_timeout s))) = Suc k)"
proof -
  from assms have pt: "poll_times s = []" by (simp add: poll_times_def)
  have a: "clock s \<le> last_updated s + 5 \<longrightarrow> refresh w s = s"
    by (simp add: refresh_def)
  have b: "0 < request_timeout \<longrightarrow>
        hd (events (snd (fetch_result w request_timeout s)))
          = (clock s, if last_updated s + 5 < clock s then RetrieveCapabilities else ResultFor)"
    unfolding fetch_result_def using assms by (intro impI fetch_loop_first_event)
  have c: "(\<forall>n. 0 \<le> took w n) \<longrightarrow>
        sorted_wrt (\<lambda>a b. a + 5 \<le> b) (poll_times (snd (fetch_result w request_timeout s)))"
    unfolding fetch_result_def by (intro impI fetch_loop_spaced) (simp_all add: pt)
  from assms have rt: "refresh_times s = []" by (simp add: refresh_times_def)
  have c': "(\<forall>n. 0 \<le> took w n) \<and> (\<forall>n. \<not> retrieve_raises w n) \<longrightarrow>
        sorted_wrt (\<lambda>a b. a + 5 < b) (refresh_times (snd (fetch_result w request_timeout s)))"
    unfolding fetch_result_def by (intro impI fetch_loop_refresh_spaced) (simp_all add: rt)
  have d: "(\<forall>k::nat. 5 * int k < request_timeout \<longrightarrow> pending (result_for w k)) \<longrightarrow>
        fst (fetch_result w request_timeout s) = Inl TimeoutException
        \<and> length (poll_times (snd (fetch_result w request_timeout s)))
            = nat ((request_timeout + 4) div 5)"
  proof
    assume "\<forall>k::nat. 5 * int k < request_timeout \<longrightarrow> pending (result_for w k)"
    then have "\<forall>k::nat. 0 + 5 * int k < request_timeout
                 \<longrightarrow> pending (result_for w (length (poll_times s) + k))"
      by (simp add: pt)
    from fetch_loop_timeout [OF this] show
      "fst (fetch_result w request_timeout s) = Inl TimeoutException
        \<and> length (poll_times (snd (fetch_result w request_timeout s)))
            = nat ((request_timeout + 4) div 5)"
      by (simp add: fetch_result_def pt)
  qed
  have e: "fst (fetch_result w request_timeout s)
             = (case result_for w k of MResult rows \<Rightarrow> Inr (Some rows) | _ \<Rightarrow> Inr None)
           \<and> length (poll_times (snd (fetch_result w request_timeout s))) = Suc k"
    if "5 * int k < request_timeout" "\<forall>j<k. pending (result_for w j)" "\<not> pending (result_for w k)"
    for k
  proof -
    have "0 + 5 * int k < request_timeout"
      and "\<forall>j<k. pending (result_for w (length (poll_times s) + j))"
      and "\<not> pending (result_for w (length (poll_times s) + k))"
      using that by (simp_all add: pt)
    from fetch_loop_answer [OF this] show ?thesis
      by (simp add: fetch_result_def pt)
  qed
  have f: "\<forall>k rows. 5 * int k < request_timeout \<and> (\<forall>j<k. pending (result_for w j))
          \<and> result_for w k = MResult rows \<longrightarrow>
        fst (fetch_result w request_timeout s) = Inr (Some rows)
        \<and> length (poll_times (snd (fetch_result w request_timeout s))) = Suc k"
    using e by fastforce
  have g: "\<forall>k. 5 * int k < request_timeout \<and> (\<forall>j<k. pending (result_for w j))
          \<and> result_for w k = MException \<longrightarrow>
        fst (fetch_result w request_timeout s) = Inr None
        \<and> length (poll_times (snd (fetch_result w request_timeout s))) = Suc k"
    using e by fastforce
  from a b c c' d f g show ?thesis by blast
qed

text \<open>
  Two clients, asked with the default timeout of 30 seconds at time 100, each call to
  the outside taking a tenth of a second. The first only ever answers with a Receipt:
  six polls, at least 5 seconds apart, then the TimeoutException. The second answers
  the third poll with a Result of two rows, which the call returns.
\<close>

theorem fetch_result_throttled_timeout_witness:
  "fst (fetch_result
          \<lparr>result_for = (\<lambda>k. Receipt :: nat response), retrieve_raises = (\<lambda>n. False),
           took = (\<lambda>n. 1 / 10)\<rparr> 30
          \<lparr>last_updated = 0, clock = 100, events = []\<rparr>) = Inl TimeoutException
   \<and> length (poll_times (snd (fetch_result
          \<lparr>result_for = (\<lambda>k. Receipt :: nat response), retrieve_raises = (\<lambda>n. False),
           took = (\<lambda>n. 1 / 10)\<rparr> 30
          \<lparr>last_updated = 0, clock = 100, events = []\<rparr>))) = 6
   \<and> sorted_wrt (\<lambda>a b. a + 5 \<le> b) (poll_times (snd (fetch_result
          \<lparr>result_for = (\<lambda>k. Receipt :: nat response), retrieve_raises = (\<lambda>n. False),
           took = (\<lambda>n. 1 / 10)\<rparr> 30
          \<lparr>last_updated = 0, clock = 100, events = []\<rparr>)))
   \<and> hd (events (snd (fetch_result
          \<lparr>result_for = (\<lambda>k. Receipt :: nat response), retrieve_raises = (\<lambda>n. False),
           took = (\<lambda>n. 1 / 10)\<rparr> 30
          \<lparr>last_updated = 0, clock = 100, events = []\<rparr>))) = (100, RetrieveCapabilities)
   \<and> sorted_wrt (\<lambda>a b. a + 5 < b) (refresh_times (snd (fetch_result
          \<lparr>result_for = (\<lambda>k. Receipt :: nat response), retrieve_raises = (\<lambda>n. False),
           took = (\<lambda>n. 1 / 10)\<rparr> 30
          \<lparr>last_updated = 0, clock = 100, events = []\<rparr>)))
   \<and> fst (fetch_result
          \<lparr>result_for = (\<lambda>k. if k = 2 then MResult [1, 2 :: nat] else Receipt),
           retrieve_raises = (\<lambda>n. False), took = (\<lambda>n. 1 / 10)\<rparr> 30
          \<lparr>last_updated = 0, clock = 100, events = []\<rparr>) = Inr (Some [1, 2])
   \<and> length (poll_times (snd (fetch_result
          \<lparr>result_for = (\<lambda>k. if k = 2 then MResult [1, 2 :: nat] else Receipt),
           retrieve_raises = (\<lambda>n. False), took = (\<lambda>n. 1 / 10)\<rparr> 30
          \<lparr>last_updated = 0, clock = 100, events = []\<rparr>))) = 3"
proof -
  define s0 where "s0 = \<lparr>last_updated = 0, clock = 100, events = []\<rparr>"
  define w1 where "w1 = \<lparr>result_for = (\<lambda>k. Receipt :: nat response),
    retrieve_raises = (\<lambda>n. False), took = (\<lambda>n. 1 / 10 :: real)\<rparr>"
  define w2 where "w2 = \<lparr>result_for = (\<lambda>k. if k = 2 then MResult [1, 2 :: nat] else Receipt),
    retrieve_raises = (\<lambda>n. False), took = (\<lambda>n. 1 / 10 :: real)\<rparr>"
  have e: "events s0 = []" by (simp add: s0_def)
  note t1 = fetch_result_throttled_timeout [OF e, of w1 30]
  note t2 = fetch_result_throttled_timeout [OF e, of w2 30]
  have p1: "\<forall>k::nat. 5 * int k < 30 \<longrightarrow> pending (result_for w1 k)"
    and tk: "\<forall>n. 0 \<le> took w1 n" and nr: "\<forall>n. \<not> retrieve_raises w1 n"
    by (simp_all add: w1_def)
  have p2: "5 * int (2 :: nat) < 30 \<and> (\<forall>j<2. pending (result_for w2 j))
            \<and> result_for w2 2 = MResult [1, 2]"
    by (simp add: w2_def)
  from t1 p1 tk nr have r1: "fst (fetch_result w1 30 s0) = Inl TimeoutException"
    "length (poll_times (snd (fetch_result w1 30 s0))) = 6"
    "sorted_wrt (\<lambda>a b. a + 5 \<le> b) (poll_times (snd (fetch_result w1 30 s0)))"
    "hd (events (snd (fetch_result w1 30 s0))) = (100, RetrieveCapabilities)"
    "sorted_wrt (\<lambda>a b. a + 5 < b) (refresh_times (snd (fetch_result w1 30 s0)))"
    by (simp_all add: s0_def)
  from t2 have "\<forall>k rows. 5 * int k < 30 \<and> (\<forall>j<k. pending (result_for w2 j))
          \<and> result_for w2 k = MResult rows \<longrightarrow>
        fst (fetch_result w2 30 s0) = Inr (Some rows)
        \<and> length (poll_times (snd (fetch_result w2 30 s0))) = Suc k"
    by blast
  from this [rule_format, OF p2] have r2: "fst (fetch_result w2 30 s0) = Inr (Some [1, 2])"
    "length (poll_times (snd (fetch_result w2 30 s0))) = 3"
    by simp_all
  from r1 r2 show ?thesis
    unfolding s0_def w1_def w2_def by simp
qed

text \<open>The log of the second run.\<close>

lemma fetch_result_example_log:
  "events (snd (fetch_result
          \<lparr>result_for = (\<lambda>k. if k = 2 then MResult [1, 2 :: nat] else Receipt),
           retrieve_raises = (\<lambda>n. False), took = (\<lambda>n. 1 / 10)\<rparr> 30
          \<lparr>last_updated = 0, clock = 100, events = []\<rparr>))
     = [(100, RetrieveCapabilities), (1001 / 10, ResultFor), (501 / 5, Sleep),
        (1053 / 10, RetrieveCapabilities), (527 / 5, ResultFor), (211 / 2, Sleep),
        (553 / 5, RetrieveCapabilities), (1107 / 10, ResultFor), (554 / 5, Forget)]"
  by code_simp

end
